theory Spec2Isabelle
  imports Complex_Main "HOL-Library.Word" "HOL-Library.Multiset"
begin

section \<open>The texture fetcher of the viewer: data model\<close>

text \<open>
  A shallow embedding of the parts of \<^verbatim>\<open>indra/newview/lltexturefetch.cpp\<close> that
  gate, issue and merge HTTP requests, reassemble UDP packets and create requests.
  Every function below takes the objects it touches and returns them updated; of
  the mutexes only the worker's, in \<^verbatim>\<open>createRequest\<close>, is modelled (every other function
  is one atomic step).

  Conventions.
  \<^item> \<^verbatim>\<open>S32\<close> values are \<open>int\<close>: sizes are guarded by the comparisons written out in
    the functions; where a computation can leave the range of 32 bits (the products of
    \<^verbatim>\<open>createRequest\<close>) the wrap-around is written out.
  \<^item> \<^verbatim>\<open>F32\<close> priorities are \<open>real\<close>: they are only compared, apart from the 5 per
    cent test of \<^verbatim>\<open>setImagePriority\<close>.
  \<^item> \<^verbatim>\<open>LLUUID\<close> and \<^verbatim>\<open>LLHost\<close> are natural numbers, a byte buffer is a list of
    bytes, a null pointer is \<open>None\<close>.
  \<^item> \<^verbatim>\<open>llassert_always\<close> stops the program: the functions that reach one return
    \<open>Inl AssertFailed\<close>; writing through a null pointer is \<open>Inl NullPointer\<close>; a state
    whose code is not modelled is \<open>Inl OutsideModel\<close>. \<^verbatim>\<open>llassert\<close> is compiled out of release builds and is
    not modelled.
\<close>

type_synonym uuid = nat
type_synonym host = nat
type_synonym byte = "8 word"

datatype error = AssertFailed | NullPointer | OutsideModel

datatype e_state =
    INVALID | INIT | LOAD_FROM_TEXTURE_CACHE | CACHE_POST | LOAD_FROM_NETWORK
  | LOAD_FROM_SIMULATOR | WAIT_HTTP_RESOURCE | WAIT_HTTP_RESOURCE2 | SEND_HTTP_REQ
  | WAIT_HTTP_REQ | DECODE_IMAGE | DECODE_IMAGE_UPDATE | WRITE_TO_CACHE | WAIT_ON_WRITE
  | DONE

text \<open>The values of the enumeration: the source compares states with \<open><\<close> and \<open>>\<close>.\<close>

fun state_val :: "e_state \<Rightarrow> nat" where
  "state_val INVALID = 0"
| "state_val INIT = 1"
| "state_val LOAD_FROM_TEXTURE_CACHE = 2"
| "state_val CACHE_POST = 3"
| "state_val LOAD_FROM_NETWORK = 4"
| "state_val LOAD_FROM_SIMULATOR = 5"
| "state_val WAIT_HTTP_RESOURCE = 6"
| "state_val WAIT_HTTP_RESOURCE2 = 7"
| "state_val SEND_HTTP_REQ = 8"
| "state_val WAIT_HTTP_REQ = 9"
| "state_val DECODE_IMAGE = 10"
| "state_val DECODE_IMAGE_UPDATE = 11"
| "state_val WRITE_TO_CACHE = 12"
| "state_val WAIT_ON_WRITE = 13"
| "state_val DONE = 14"

datatype e_request_state = UNSENT | QUEUED | SENT_SIM

datatype e_write_to_cache_state = NOT_WRITE | CAN_WRITE | SHOULD_WRITE

text \<open>
  \<^verbatim>\<open>FTType\<close> is declared outside the files at hand; the fetcher names three of its
  values, the others are \<open>FTT_OTHER\<close>.
\<close>

datatype FTType = FTT_DEFAULT | FTT_SERVER_BAKE | FTT_MAP_TILE | FTT_OTHER

text \<open>
  \<^verbatim>\<open>LLCore::HttpStatus\<close>, as far as the fetcher looks at it: the default status of a
  request not yet answered, an HTTP status code, or a failure of the transport. A status
  is true (\<open>status_ok\<close>) when it is not an error.
\<close>

datatype HttpStatus = StatusDefault | StatusHttp nat | StatusTransportError

definition status_ok :: "HttpStatus \<Rightarrow> bool" where
  "status_ok s = (case s of StatusDefault \<Rightarrow> True
                  | StatusHttp c \<Rightarrow> 200 \<le> c \<and> c \<le> 299
                  | StatusTransportError \<Rightarrow> False)"

definition http_not_found :: HttpStatus where "http_not_found = StatusHttp 404"
definition http_service_unavail :: HttpStatus where "http_service_unavail = StatusHttp 503"
definition http_not_sat :: HttpStatus where "http_not_sat = StatusHttp 416"
definition par_status :: HttpStatus where "par_status = StatusHttp 206"

text \<open>The formatted (compressed) image: its bytes and its discard level.\<close>

record LLImageFormatted =
  mData :: "byte list"
  mDiscardLevel :: int

definition getDataSize :: "LLImageFormatted option \<Rightarrow> int" where
  "getDataSize img = (case img of None \<Rightarrow> 0 | Some i \<Rightarrow> int (length (mData i)))"

record PacketData =
  pData :: "byte list"
  pSize :: nat

text \<open>
  The worker. Of the fields of \<^verbatim>\<open>LLTextureFetchWorker\<close> the record keeps those the
  modelled functions read or write; timers, metrics, the scheduling priority of the
  work queue and the decoded images are left out. \<open>addr\<close> is the address of the object
  (\<^verbatim>\<open>Compare\<close> orders equal priorities by it); \<open>haveWork\<close>, \<open>wasAborted\<close> and
  \<open>deleteRequested\<close> are the flags of the base class \<^verbatim>\<open>LLWorkerClass\<close>.
\<close>

record worker =
  addr :: nat
  mState :: e_state
  mPrevState :: e_state
  mWriteToCacheState :: e_write_to_cache_state
  mFormattedImage :: "LLImageFormatted option"
  mFTType :: FTType
  mID :: uuid
  mHost :: host
  mUrl :: string
  mImagePriority :: real
  mDesiredDiscard :: int
  mRequestedDiscard :: int
  mLoadedDiscard :: int
  mRequestedSize :: int
  mRequestedOffset :: int
  mDesiredSize :: int
  mFileSize :: int
  mSentRequest :: e_request_state
  mLoaded :: bool
  mNeedsAux :: bool
  mHaveAllData :: bool
  mCanUseHTTP :: bool
  mCanUseNET :: bool
  mActiveCount :: int
  mGetStatus :: HttpStatus
  mPackets :: "PacketData option list"
  mFirstPacket :: int
  mLastPacket :: int
  mTotalPackets :: nat
  mHttpBufferArray :: "byte list option"
  mHttpActive :: bool
  mHttpReplySize :: nat
  mHttpReplyOffset :: nat
  mHttpHasResource :: bool
  mResourceWaitCount :: nat
  haveWork :: bool
  wasAborted :: bool
  deleteRequested :: bool

text \<open>A request handed to the HTTP library by \<^verbatim>\<open>SEND_HTTP_REQ\<close>.\<close>

datatype http_get =
    RequestGet string
  | RequestGetByteRange string int int

text \<open>
  The fetcher. \<open>mHttpWaitResource\<close> is a \<^verbatim>\<open>std::set\<close> that the code iterates, kept
  as a strictly increasing list; the other sets are only inserted into and erased from.
  \<open>mRequestMap\<close> holds the worker objects. \<open>mQuitting\<close> is \<^verbatim>\<open>isQuitting()\<close> of the
  thread class; \<open>mHttpIssued\<close> records the calls made on \<^verbatim>\<open>mHttpRequest\<close>.
\<close>

record LLTextureFetch =
  mDebugPause :: bool
  mFetcherLocked :: bool
  mQuitting :: bool
  mPacketCount :: "32 word"
  mBadPacketCount :: "32 word"
  mRequestMap :: "uuid \<rightharpoonup> worker"
  mNetworkQueue :: "uuid set"
  mCancelQueue :: "host \<Rightarrow> uuid set"
  mHTTPTextureQueue :: "uuid set"
  mTotalHTTPRequests :: "32 word"
  mHttpWaitResource :: "uuid list"
  mHttpSemaphore :: int
  mHttpHighWater :: int
  mHttpLowWater :: int
  mHttpIssued :: "http_get list"

definition HTTP_PIPE_REQUESTS_HIGH_WATER :: int where "HTTP_PIPE_REQUESTS_HIGH_WATER = 100"
definition HTTP_PIPE_REQUESTS_LOW_WATER :: int where "HTTP_PIPE_REQUESTS_LOW_WATER = 50"
definition HTTP_NONPIPE_REQUESTS_HIGH_WATER :: int where "HTTP_NONPIPE_REQUESTS_HIGH_WATER = 40"
definition HTTP_NONPIPE_REQUESTS_LOW_WATER :: int where "HTTP_NONPIPE_REQUESTS_LOW_WATER = 20"
definition HTTP_REQUESTS_RANGE_END_MAX :: int where "HTTP_REQUESTS_RANGE_END_MAX = 20000000"

section \<open>The HTTP semaphore\<close>

definition setState :: "e_state \<Rightarrow> worker \<Rightarrow> worker" where
  "setState new_state w = w\<lparr>mPrevState := mState w, mState := new_state\<rparr>"

definition acquireHttpSemaphore :: "worker \<Rightarrow> LLTextureFetch \<Rightarrow> bool \<times> worker \<times> LLTextureFetch" where
  "acquireHttpSemaphore w f =
     (if mHttpSemaphore f \<ge> mHttpHighWater f then (False, w, f)
      else (True, w\<lparr>mHttpHasResource := True\<rparr>,
                  f\<lparr>mHttpSemaphore := mHttpSemaphore f + 1\<rparr>))"

definition releaseHttpSemaphore :: "worker \<Rightarrow> LLTextureFetch \<Rightarrow> error + worker \<times> LLTextureFetch" where
  "releaseHttpSemaphore w f =
     (let w' = w\<lparr>mHttpHasResource := False\<rparr>;
          f' = f\<lparr>mHttpSemaphore := mHttpSemaphore f - 1\<rparr>
      in if mHttpSemaphore f' \<ge> 0 then Inr (w', f') else Inl AssertFailed)"

text \<open>
  A sequence of calls on one fetcher, each made by some worker. The run stops at a failed
  \<^verbatim>\<open>llassert_always\<close>.
\<close>

datatype sem_call = AcquireCall worker | ReleaseCall worker

fun run_calls :: "LLTextureFetch \<Rightarrow> sem_call list \<Rightarrow> error + LLTextureFetch" where
  "run_calls f [] = Inr f"
| "run_calls f (AcquireCall w # cs) =
     (case acquireHttpSemaphore w f of (ok, w', f') \<Rightarrow> run_calls f' cs)"
| "run_calls f (ReleaseCall w # cs) =
     (case releaseHttpSemaphore w f of
        Inl e \<Rightarrow> Inl e
      | Inr (w', f') \<Rightarrow> run_calls f' cs)"


section \<open>What the fetcher takes from outside\<close>

text \<open>
  Constants, settings and collaborators that the fetcher uses and that are declared in
  other files: they are parameters of the model.
  \<^item> \<open>F_ALMOST_ZERO\<close>, \<open>MAX_IMG_PACKET_SIZE\<close>, \<open>FIRST_PACKET_SIZE\<close>,
    \<open>MAX_IMAGE_DATA_SIZE\<close>, \<open>MAX_DISCARD_LEVEL\<close>: constants of the image library;
  \<^item> \<open>HttpRangeRequestsDisable\<close>: the setting of that name;
  \<^item> \<open>requestAccepted\<close>: whether the HTTP library returns a valid handle for a request;
  \<^item> \<open>ALLOCATE_MEM\<close>: the buffer an allocation of \<open>n\<close> bytes returns (its contents are
    whatever the allocator left there), \<open>None\<close> for a null pointer;
  \<^item> \<open>updateData\<close>: the header parser of the formatted image, which fails (\<open>None\<close>) or
    sets the discard level and leaves the bytes alone;
  \<^item> \<open>newImageDiscard\<close>: the discard level of a newly created formatted image;
  \<^item> \<open>calcDataSizeJ2C\<close>: the size formula of \<^verbatim>\<open>LLImageJ2C\<close>;
  \<^item> \<open>urlNotJ2C\<close>: the url has an extension and its codec is not J2C.
\<close>

record env =
  F_ALMOST_ZERO :: real
  MAX_IMG_PACKET_SIZE :: nat
  FIRST_PACKET_SIZE :: nat
  MAX_IMAGE_DATA_SIZE :: int
  MAX_DISCARD_LEVEL :: int
  HttpRangeRequestsDisable :: bool
  requestAccepted :: "http_get \<Rightarrow> bool"
  ALLOCATE_MEM :: "nat \<Rightarrow> byte list option"
  updateData :: "byte list \<Rightarrow> int option"
  newImageDiscard :: int
  calcDataSizeJ2C :: "int \<Rightarrow> int \<Rightarrow> int \<Rightarrow> int \<Rightarrow> int"
  urlNotJ2C :: "string \<Rightarrow> bool"

section \<open>Worker: construction and demand\<close>

definition clearPackets :: "worker \<Rightarrow> worker" where
  "clearPackets w = w\<lparr>mPackets := [], mTotalPackets := 0, mLastPacket := -1, mFirstPacket := 0\<rparr>"

definition deleteData :: "LLImageFormatted \<Rightarrow> LLImageFormatted" where
  "deleteData img = img\<lparr>mData := []\<rparr>"

definition resetFormattedData :: "worker \<Rightarrow> worker" where
  "resetFormattedData w =
     w\<lparr>mHttpBufferArray := None,
       mFormattedImage := map_option deleteData (mFormattedImage w),
       mHttpReplySize := 0,
       mHttpReplyOffset := 0,
       mHaveAllData := False\<rparr>"

text \<open>\<^verbatim>\<open>addWork\<close> of the base class registers a work request: \<open>haveWork\<close> becomes true.\<close>

definition addWork :: "worker \<Rightarrow> worker" where
  "addWork w = w\<lparr>haveWork := True\<rparr>"

definition setDesiredDiscard :: "LLTextureFetch \<Rightarrow> int \<Rightarrow> int \<Rightarrow> worker \<Rightarrow> worker" where
  "setDesiredDiscard f discard sz w =
     (let prioritize =
            (if mDesiredDiscard w \<noteq> discard then haveWork w \<and> mDesiredDiscard w < discard
             else sz > mDesiredSize w);
          w1 = (if mDesiredDiscard w \<noteq> discard
                then (if \<not> haveWork w \<and> \<not> mDebugPause f then addWork w else w)
                       \<lparr>mDesiredDiscard := discard, mDesiredSize := sz\<rparr>
                else if sz > mDesiredSize w then w\<lparr>mDesiredSize := sz\<rparr>
                else w);
          w2 = w1\<lparr>mDesiredSize := max (mDesiredSize w1) (2 ^ 12)\<rparr>
      in if (prioritize \<and> mState w2 = INIT) \<or> mState w2 = DONE then setState INIT w2 else w2)"

definition setImagePriority :: "real \<Rightarrow> worker \<Rightarrow> worker" where
  "setImagePriority priority w =
     (let delta = \<bar>priority - mImagePriority w\<bar>
      in if delta > mImagePriority w * (5 / 100) \<or> mState w = DONE
         then w\<lparr>mImagePriority := priority\<rparr> else w)"


text \<open>The constructor; \<open>a\<close> is the address of the new object.\<close>

definition LLTextureFetchWorker ::
  "LLTextureFetch \<Rightarrow> nat \<Rightarrow> FTType \<Rightarrow> string \<Rightarrow> uuid \<Rightarrow> host \<Rightarrow> real \<Rightarrow> int \<Rightarrow> int \<Rightarrow> worker" where
  "LLTextureFetchWorker fetcher a f_type url tid host priority discard sz =
     (let w0 = \<lparr>addr = a, mState = INIT, mPrevState = INIT, mWriteToCacheState = CAN_WRITE,
                mFormattedImage = None, mFTType = f_type, mID = tid, mHost = host,
                mUrl = url, mImagePriority = priority, mDesiredDiscard = -1,
                mRequestedDiscard = -1, mLoadedDiscard = -1, mRequestedSize = 0,
                mRequestedOffset = 0, mDesiredSize = 2 ^ 12, mFileSize = 0,
                mSentRequest = UNSENT, mLoaded = False, mNeedsAux = False,
                mHaveAllData = False, mCanUseHTTP = True, mCanUseNET = (url = []),
                mActiveCount = 0, mGetStatus = StatusDefault, mPackets = [],
                mFirstPacket = 0, mLastPacket = -1, mTotalPackets = 0,
                mHttpBufferArray = None, mHttpActive = False, mHttpReplySize = 0,
                mHttpReplyOffset = 0, mHttpHasResource = False, mResourceWaitCount = 0,
                haveWork = False, wasAborted = False, deleteRequested = False\<rparr>;
          w1 = (if \<not> mDebugPause fetcher then addWork w0 else w0)
      in setDesiredDiscard fetcher discard sz w1)"

section \<open>Fetcher: queues and waiters\<close>

definition getWorker :: "LLTextureFetch \<Rightarrow> uuid \<Rightarrow> worker option" where
  "getWorker f tid = mRequestMap f tid"

definition removeFromNetworkQueue :: "worker \<Rightarrow> bool \<Rightarrow> LLTextureFetch \<Rightarrow> LLTextureFetch" where
  "removeFromNetworkQueue w cancel f =
     (let erased = (mID w \<in> mNetworkQueue f);
          f1 = f\<lparr>mNetworkQueue := mNetworkQueue f - {mID w}\<rparr>
      in if cancel \<and> erased
         then f1\<lparr>mCancelQueue := (mCancelQueue f1)(mHost w := insert (mID w) (mCancelQueue f1 (mHost w)))\<rparr>
         else f1)"

definition addToHTTPQueue :: "uuid \<Rightarrow> LLTextureFetch \<Rightarrow> LLTextureFetch" where
  "addToHTTPQueue tid f =
     f\<lparr>mHTTPTextureQueue := insert tid (mHTTPTextureQueue f),
       mTotalHTTPRequests := mTotalHTTPRequests f + 1\<rparr>"

definition removeFromHTTPQueue :: "uuid \<Rightarrow> LLTextureFetch \<Rightarrow> LLTextureFetch" where
  "removeFromHTTPQueue tid f = f\<lparr>mHTTPTextureQueue := mHTTPTextureQueue f - {tid}\<rparr>"

definition addHttpWaiter :: "uuid \<Rightarrow> LLTextureFetch \<Rightarrow> LLTextureFetch" where
  "addHttpWaiter tid f =
     (if tid \<in> set (mHttpWaitResource f) then f
      else f\<lparr>mHttpWaitResource := insort tid (mHttpWaitResource f)\<rparr>)"

definition removeHttpWaiter :: "uuid \<Rightarrow> LLTextureFetch \<Rightarrow> LLTextureFetch" where
  "removeHttpWaiter tid f = f\<lparr>mHttpWaitResource := removeAll tid (mHttpWaitResource f)\<rparr>"

definition isHttpWaiter :: "uuid \<Rightarrow> LLTextureFetch \<Rightarrow> bool" where
  "isHttpWaiter tid f = (tid \<in> set (mHttpWaitResource f))"

definition getHttpWaitersCount :: "LLTextureFetch \<Rightarrow> int" where
  "getHttpWaitersCount f = int (length (mHttpWaitResource f))"

text \<open>The constructor of the fetcher: nothing queued, the watermarks of a transport
  that does not pipeline.\<close>

definition LLTextureFetch_new :: LLTextureFetch where
  "LLTextureFetch_new =
     \<lparr>mDebugPause = False, mFetcherLocked = False, mQuitting = False,
      mPacketCount = 0, mBadPacketCount = 0, mRequestMap = Map.empty,
      mNetworkQueue = {}, mCancelQueue = (\<lambda>h. {}), mHTTPTextureQueue = {},
      mTotalHTTPRequests = 0, mHttpWaitResource = [],
      mHttpSemaphore = 0,
      mHttpHighWater = HTTP_NONPIPE_REQUESTS_HIGH_WATER,
      mHttpLowWater = HTTP_NONPIPE_REQUESTS_LOW_WATER,
      mHttpIssued = []\<rparr>"


section \<open>Releasing the waiters\<close>











definition granted :: "worker \<Rightarrow> worker" where
  "granted w = setState SEND_HTTP_REQ (w\<lparr>mHttpHasResource := True\<rparr>)"




section \<open>UDP packets\<close>

text \<open>
  The loop at the end of \<^verbatim>\<open>insertPacket\<close>: the last packet of the filled prefix moves
  forward while the next slot exists and is filled. (\<open>mLastPacket\<close> is never below \<open>-1\<close>;
  the source would index the vector at a negative position there, the model stops.)
\<close>

function advanceLastPacket :: "PacketData option list \<Rightarrow> int \<Rightarrow> int" where
  "advanceLastPacket ps lastp =
     (if 0 \<le> lastp + 1 \<and> lastp + 1 < int (length ps) \<and> ps ! nat (lastp + 1) \<noteq> None
      then advanceLastPacket ps (lastp + 1)
      else lastp)"
  by pat_completeness auto
termination
  by (relation "measure (\<lambda>(ps, lastp). nat (int (length ps) - lastp))") auto

text \<open>
  \<^verbatim>\<open>insertPacket(index, data, size)\<close>. The index is 0 (the header) or the unsigned packet
  number of a message, so it is a natural number here; \<open>sz\<close> is the number of bytes of
  \<open>data\<close> that the caller announces.
\<close>

definition insertPacket :: "env \<Rightarrow> nat \<Rightarrow> byte list \<Rightarrow> nat \<Rightarrow> worker \<Rightarrow> bool \<times> worker" where
  "insertPacket env index data sz w =
     (if index \<ge> mTotalPackets w then (False, w)
      else if index > 0 \<and> int index < int (mTotalPackets w) - 1 \<and> sz \<noteq> MAX_IMG_PACKET_SIZE env
      then (False, w)
      else if index < length (mPackets w) \<and> mPackets w ! index \<noteq> None then (False, w)
      else
        let resized = (if index \<ge> length (mPackets w)
                       then mPackets w @ replicate (index + 1 - length (mPackets w)) None
                       else mPackets w);
            ps = resized[index := Some \<lparr>pData = data, pSize = sz\<rparr>]
        in (True, w\<lparr>mPackets := ps, mLastPacket := advanceLastPacket ps (mLastPacket w)\<rparr>))"

text \<open>
  The packets with the indices \<open>first\<close> to \<open>last\<close>, or \<open>None\<close> where the source's
  \<^verbatim>\<open>llassert_always\<close> fail: an index outside the vector or an empty slot.
\<close>

definition packets_between :: "PacketData option list \<Rightarrow> int \<Rightarrow> int \<Rightarrow> PacketData list option" where
  "packets_between ps firstp lastp =
     (if list_all (\<lambda>i. 0 \<le> i \<and> i < int (length ps) \<and> ps ! nat i \<noteq> None) [firstp..lastp]
      then Some (map (\<lambda>i. the (ps ! nat i)) [firstp..lastp])
      else None)"

text \<open>\<^verbatim>\<open>memcpy(buf + off, src, length src)\<close> on a buffer kept as a list.\<close>

definition memcpy :: "byte list \<Rightarrow> nat \<Rightarrow> byte list \<Rightarrow> byte list" where
  "memcpy buf off src = take off buf @ src @ drop (off + length src) buf"

fun copy_packets :: "byte list \<Rightarrow> nat \<Rightarrow> PacketData list \<Rightarrow> byte list" where
  "copy_packets buf off [] = buf"
| "copy_packets buf off (p # ps) =
     copy_packets (memcpy buf off (take (pSize p) (pData p))) (off + pSize p) ps"

definition processSimulatorPackets :: "env \<Rightarrow> worker \<Rightarrow> error + bool \<times> worker" where
  "processSimulatorPackets env w =
     (case mFormattedImage w of
        None \<Rightarrow> Inl AssertFailed
      | Some img \<Rightarrow>
          if mRequestedSize w < 0 then Inl AssertFailed
          else if mLastPacket w \<ge> mFirstPacket w then
            (case packets_between (mPackets w) (mFirstPacket w) (mLastPacket w) of
               None \<Rightarrow> Inl AssertFailed
             | Some pkts \<Rightarrow>
                 let cur_size = int (length (mData img));
                     buffer_size = cur_size + int (sum_list (map pSize pkts));
                     have_all_data = (mLastPacket w \<ge> int (mTotalPackets w) - 1)
                 in if mRequestedSize w \<le> 0 then Inr (True, w)
                    else if buffer_size \<ge> mRequestedSize w \<or> have_all_data then
                      (let w1 = (if have_all_data then w\<lparr>mHaveAllData := True\<rparr> else w)
                       in if buffer_size > cur_size then
                            (case ALLOCATE_MEM env (nat buffer_size) of
                               None \<Rightarrow> Inl NullPointer
                             | Some buffer \<Rightarrow>
                                 let keep = (cur_size > 0 \<and> mFirstPacket w > 0);
                                     buffer1 = (if keep then memcpy buffer 0 (mData img) else buffer);
                                     offset = (if keep then nat cur_size else 0);
                                     buffer2 = copy_packets buffer1 offset pkts
                                 in Inr (True, w1\<lparr>mFormattedImage := Some (img\<lparr>mData := buffer2\<rparr>),
                                                   mLoadedDiscard := mRequestedDiscard w1\<rparr>))
                          else Inr (True, w1\<lparr>mLoadedDiscard := mRequestedDiscard w1\<rparr>))
                    else Inr (False, w))
          else Inr (False, w))"

text \<open>The block that both receive functions run for a delivery they refuse.\<close>

definition count_bad_packet :: "host \<Rightarrow> uuid \<Rightarrow> LLTextureFetch \<Rightarrow> LLTextureFetch" where
  "count_bad_packet h tid f =
     f\<lparr>mBadPacketCount := mBadPacketCount f + 1,
       mCancelQueue := (mCancelQueue f)(h := insert tid (mCancelQueue f h))\<rparr>"

definition receiveImageHeader ::
  "env \<Rightarrow> host \<Rightarrow> uuid \<Rightarrow> nat \<Rightarrow> 32 word \<Rightarrow> nat \<Rightarrow> byte list \<Rightarrow> LLTextureFetch
     \<Rightarrow> error + bool \<times> LLTextureFetch" where
  "receiveImageHeader env h tid packets totalbytes data_size data f =
     (let f1 = f\<lparr>mPacketCount := mPacketCount f + 1\<rparr>
      in case getWorker f1 tid of
           None \<Rightarrow> Inr (False, count_bad_packet h tid f1)
         | Some worker \<Rightarrow>
             if mState worker \<noteq> LOAD_FROM_NETWORK \<or> mSentRequest worker \<noteq> SENT_SIM
             then Inr (False, count_bad_packet h tid f1)
             else if mLastPacket worker \<noteq> -1 then Inr (False, count_bad_packet h tid f1)
             else if data_size = 0 then Inr (False, count_bad_packet h tid f1)
             else
               let w1 = worker\<lparr>mTotalPackets := packets, mFileSize := sint totalbytes\<rparr>
               in if totalbytes = 0 then Inl AssertFailed
                  else if \<not> (data_size = FIRST_PACKET_SIZE env \<or> int data_size = mFileSize w1)
                  then Inl AssertFailed
                  else (case insertPacket env 0 data data_size w1 of
                          (res, w2) \<Rightarrow>
                            Inr (res, f1\<lparr>mRequestMap :=
                                           (mRequestMap f1)(tid \<mapsto> setState LOAD_FROM_SIMULATOR w2)\<rparr>)))"

definition receiveImagePacket ::
  "env \<Rightarrow> host \<Rightarrow> uuid \<Rightarrow> nat \<Rightarrow> nat \<Rightarrow> byte list \<Rightarrow> LLTextureFetch \<Rightarrow> bool \<times> LLTextureFetch" where
  "receiveImagePacket env h tid packet_num data_size data f =
     (let f1 = f\<lparr>mPacketCount := mPacketCount f + 1\<rparr>
      in case getWorker f1 tid of
           None \<Rightarrow> (False, count_bad_packet h tid f1)
         | Some worker \<Rightarrow>
             if mLastPacket worker = -1 then (False, count_bad_packet h tid f1)
             else if data_size = 0 then (False, count_bad_packet h tid f1)
             else (case insertPacket env packet_num data data_size worker of
                     (res, w1) \<Rightarrow>
                       if mState w1 = LOAD_FROM_SIMULATOR \<or> mState w1 = LOAD_FROM_NETWORK
                       then (res, f1\<lparr>mRequestMap :=
                                        (mRequestMap f1)(tid \<mapsto> setState LOAD_FROM_SIMULATOR w1)\<rparr>)
                       else (res, removeFromNetworkQueue w1 True
                                    (f1\<lparr>mRequestMap := (mRequestMap f1)(tid \<mapsto> w1)\<rparr>))))"

text \<open>
  For the statements about packets: every slot up to \<open>last\<close> is filled and the slot after
  it, if the vector has one, is empty.
\<close>

definition contiguous :: "PacketData option list \<Rightarrow> int \<Rightarrow> bool" where
  "contiguous ps lastp =
     (-1 \<le> lastp \<and> lastp < int (length ps)
      \<and> (\<forall>i. i \<le> nat lastp \<and> 0 \<le> lastp \<longrightarrow> ps ! i \<noteq> None)
      \<and> (nat (lastp + 1) < length ps \<longrightarrow> ps ! nat (lastp + 1) = None))"

text \<open>Delivering packets, each an index, its bytes and their number, in the order of the list.\<close>

fun deliver :: "env \<Rightarrow> (nat \<times> byte list \<times> nat) list \<Rightarrow> worker \<Rightarrow> worker" where
  "deliver env [] w = w"
| "deliver env ((i, d, s) # rest) w = deliver env rest (snd (insertPacket env i d s w))"

text \<open>
  The three refusals of \<^verbatim>\<open>insertPacket\<close>: the index is not below the number of packets;
  a packet that is neither the first nor the last has not the fixed size; the slot is
  taken.
\<close>

definition rejects :: "env \<Rightarrow> nat \<Rightarrow> nat \<Rightarrow> worker \<Rightarrow> bool" where
  "rejects env i s w =
     (i \<ge> mTotalPackets w
      \<or> (i > 0 \<and> int i < int (mTotalPackets w) - 1 \<and> s \<noteq> MAX_IMG_PACKET_SIZE env)
      \<or> (i < length (mPackets w) \<and> mPackets w ! i \<noteq> None))"

definition stored :: "nat \<Rightarrow> byte list \<Rightarrow> nat \<Rightarrow> PacketData option list \<Rightarrow> PacketData option list" where
  "stored i d s ps =
     (if i \<ge> length ps then ps @ replicate (i + 1 - length ps) None else ps)
       [i := Some \<lparr>pData = d, pSize = s\<rparr>]"

section \<open>The HTTP states of \<^verbatim>\<open>doWork\<close> and the completion callback\<close>

text \<open>
  The answer of the HTTP library: its status, its body (a null pointer is \<open>None\<close>) and
  the range of a partial answer as \<open>(offset, length, full_length)\<close>.
\<close>

record HttpResponse =
  rStatus :: HttpStatus
  rBody :: "byte list option"
  rRange :: "nat \<times> nat \<times> nat"

definition callbackHttpGet :: "HttpResponse \<Rightarrow> bool \<Rightarrow> bool \<Rightarrow> worker \<Rightarrow> error + int \<times> worker" where
  "callbackHttpGet response partial success w =
     (if mState w \<noteq> WAIT_HTTP_REQ then Inr (0, w)
      else if mLoaded w then Inr (0, w)
      else if success then
        (let data_size = (case rBody response of None \<Rightarrow> 0 | Some body \<Rightarrow> int (length body))
         in if data_size > 0 then
              (if mHttpBufferArray w \<noteq> None then Inl AssertFailed
               else
                 let w1 = w\<lparr>mHttpBufferArray := rBody response\<rparr>;
                     w2 = (if partial then
                             (case rRange response of
                                (offset, len, full_length) \<Rightarrow>
                                  if offset = 0 \<and> len = 0
                                  then w1\<lparr>mHttpReplySize := nat data_size,
                                          mHttpReplyOffset := nat (mRequestedOffset w1)\<rparr>
                                  else w1\<lparr>mHttpReplySize := len, mHttpReplyOffset := offset\<rparr>)
                           else w1);
                     w3 = (if \<not> partial then w2\<lparr>mHaveAllData := True, mFormattedImage := None\<rparr>
                           else if data_size < mRequestedSize w2 then w2\<lparr>mHaveAllData := True\<rparr>
                           else if data_size > mRequestedSize w2
                           then w2\<lparr>mHaveAllData := True, mFormattedImage := None\<rparr>
                           else w2)
                 in Inr (data_size, w3\<lparr>mRequestedSize := data_size, mLoaded := True\<rparr>))
            else Inr (data_size, w\<lparr>mHaveAllData := True, mRequestedSize := data_size,
                                     mLoaded := True\<rparr>))
      else Inr (0, w\<lparr>mRequestedSize := -1, mLoaded := True\<rparr>))"

text \<open>
  \<^verbatim>\<open>onCompleted\<close>. \<open>should_retry\<close> is the answer of the retry policy after it has been
  told of the failure (the policy is another class). The debug setting that fakes
  failures is off.
\<close>

definition onCompleted ::
  "bool \<Rightarrow> HttpResponse \<Rightarrow> worker \<Rightarrow> LLTextureFetch \<Rightarrow> error + worker \<times> LLTextureFetch" where
  "onCompleted should_retry response w f =
     (let w0 = w\<lparr>mHttpActive := False\<rparr>;
          status = rStatus response
      in if \<not> status_ok status \<and> mFTType w0 = FTT_SERVER_BAKE \<and> should_retry then
           (case releaseHttpSemaphore (w0\<lparr>mGetStatus := status\<rparr>) (removeFromHTTPQueue (mID w0) f) of
              Inl e \<Rightarrow> Inl e
            | Inr (w1, f1) \<Rightarrow> Inr (setState LOAD_FROM_NETWORK w1, f1))
         else
           (let success = status_ok status;
                partial = (success \<and> status = par_status)
            in case callbackHttpGet response partial success (w0\<lparr>mGetStatus := status\<rparr>) of
                 Inl e \<Rightarrow> Inl e
               | Inr (data_size, w1) \<Rightarrow> Inr (w1, removeFromHTTPQueue (mID w1) f)))"

text \<open>\<^verbatim>\<open>releaseHttpSemaphore(); return r;\<close>\<close>

definition release_and_return ::
  "bool \<Rightarrow> worker \<Rightarrow> LLTextureFetch \<Rightarrow> error + bool \<times> worker \<times> LLTextureFetch" where
  "release_and_return r w f =
     (case releaseHttpSemaphore w f of
        Inl e \<Rightarrow> Inl e
      | Inr (w', f') \<Rightarrow> Inr (r, w', f'))"

text \<open>
  The block \<^verbatim>\<open>if (mState == WAIT_HTTP_REQ)\<close>. The offsets and sizes stay below
  \<open>2 ^ 31\<close>, so the comparisons between the unsigned reply offset and the signed sizes
  are comparisons of numbers.
\<close>

definition doWork_WAIT_HTTP_REQ ::
  "env \<Rightarrow> worker \<Rightarrow> LLTextureFetch \<Rightarrow> error + bool \<times> worker \<times> LLTextureFetch" where
  "doWork_WAIT_HTTP_REQ env w f =
     (if \<not> mLoaded w then Inr (False, w, f)
      else
        let cur_size = getDataSize (mFormattedImage w)
        in if mRequestedSize w < 0 then
             (if mGetStatus w = http_not_found
                 \<and> (mFTType w = FTT_MAP_TILE \<or> mFTType w = FTT_SERVER_BAKE)
              then release_and_return True (setState DONE w) f
              else if mGetStatus w = http_not_found \<and> mCanUseNET w
              then release_and_return False ((setState INIT w)\<lparr>mCanUseHTTP := False, mUrl := []\<rparr>) f
              else
                let w1 = (if mGetStatus w \<noteq> http_not_found \<and> mGetStatus w \<noteq> http_service_unavail
                             \<and> mGetStatus w = http_not_sat
                          then w\<lparr>mHaveAllData := True\<rparr> else w);
                    w2 = (if mFTType w1 \<noteq> FTT_SERVER_BAKE then w1\<lparr>mUrl := []\<rparr> else w1)
                in if cur_size > 0
                   then release_and_return False
                          (setState DECODE_IMAGE
                             (w2\<lparr>mLoadedDiscard :=
                                   (case mFormattedImage w2 of
                                      Some img \<Rightarrow> mDiscardLevel img
                                    | None \<Rightarrow> mLoadedDiscard w2)\<rparr>)) f
                   else release_and_return True (setState DONE (resetFormattedData w2)) f)
           else
             (case mHttpBufferArray w of
                None \<Rightarrow> release_and_return True (setState DONE w) f
              | Some body \<Rightarrow>
                  if body = []
                  then release_and_return True (setState DONE (w\<lparr>mHttpBufferArray := None\<rparr>)) f
                  else if int (length body) \<noteq> mRequestedSize w then Inl AssertFailed
                  else
                    let misaligned = (mHttpReplyOffset w \<noteq> 0 \<and> int (mHttpReplyOffset w) \<noteq> cur_size)
                    in if misaligned
                          \<and> (int (mHttpReplyOffset w) > cur_size
                              \<or> cur_size > int (mHttpReplyOffset w) + int (length body))
                       then release_and_return True (setState DONE w) f
                       else
                         let src_offset = (if misaligned then cur_size - int (mHttpReplyOffset w) else 0);
                             append_size = int (length body) - src_offset;
                             total_size = cur_size + int (length body) - src_offset;
                             w1 = (if misaligned
                                   then w\<lparr>mRequestedSize := mRequestedSize w - src_offset,
                                          mRequestedOffset := mRequestedOffset w + src_offset\<rparr>
                                   else w)
                         in (case ALLOCATE_MEM env (nat total_size) of
                              None \<Rightarrow> release_and_return True (setState DONE w1) f
                            | Some buffer \<Rightarrow>
                                let img = (case mFormattedImage w1 of
                                             None \<Rightarrow> \<lparr>mData = [], mDiscardLevel = newImageDiscard env\<rparr>
                                           | Some i \<Rightarrow> i);
                                    w2 = (if mHaveAllData w1
                                          then w1\<lparr>mFileSize := total_size, mDesiredSize := total_size\<rparr>
                                          else w1\<lparr>mFileSize := total_size + 1\<rparr>);
                                    buffer1 = (if cur_size > 0 then memcpy buffer 0 (mData img) else buffer);
                                    buffer2 = memcpy buffer1 (nat cur_size)
                                                (take (nat append_size) (drop (nat src_offset) body));
                                    w3 = w2\<lparr>mFormattedImage := Some (img\<lparr>mData := buffer2\<rparr>)\<rparr>
                                in (case updateData env buffer2 of
                                     None \<Rightarrow> release_and_return False (setState DONE w3) f
                                   | Some discard \<Rightarrow>
                                       let w4 = w3\<lparr>mFormattedImage :=
                                                      Some (img\<lparr>mData := buffer2, mDiscardLevel := discard\<rparr>),
                                                   mHttpBufferArray := None,
                                                   mHttpReplySize := 0, mHttpReplyOffset := 0\<rparr>;
                                           w5 = w4\<lparr>mLoadedDiscard :=
                                                      (if mHaveAllData w4 then 0 else mRequestedDiscard w4)\<rparr>;
                                           w6 = setState DECODE_IMAGE w5;
                                           w7 = (if mLoadedDiscard w6 = 0
                                                 then w6\<lparr>mWriteToCacheState := SHOULD_WRITE\<rparr> else w6)
                                       in release_and_return False w7 f))))"

text \<open>
  The block \<^verbatim>\<open>if (mState == SEND_HTTP_REQ)\<close>, which falls through into the block of
  \<open>WAIT_HTTP_REQ\<close> once the request is out. \<open>the_request\<close> is the call it makes on the
  HTTP library for a worker that holds \<open>cur_size\<close> bytes.
\<close>

definition the_request :: "env \<Rightarrow> worker \<Rightarrow> int \<Rightarrow> http_get" where
  "the_request env w cur_size =
     (let requested_size = mDesiredSize w - cur_size;
          requested_offset = cur_size;
          off = (if requested_offset \<noteq> 0 then requested_offset - 1 else requested_offset);
          sz = (if requested_offset \<noteq> 0 then requested_size + 1 else requested_size)
      in if HttpRangeRequestsDisable env then RequestGet (mUrl w)
         else RequestGetByteRange (mUrl w) off
                (if off + sz > HTTP_REQUESTS_RANGE_END_MAX then 0 else sz))"

definition doWork_SEND_HTTP_REQ ::
  "env \<Rightarrow> worker \<Rightarrow> LLTextureFetch \<Rightarrow> error + bool \<times> worker \<times> LLTextureFetch" where
  "doWork_SEND_HTTP_REQ env w f =
     (if \<not> mCanUseHTTP w then release_and_return True w f
      else
        let f1 = removeFromNetworkQueue w False f;
            cur_size = getDataSize (mFormattedImage w);
            have_it_all = (case mFormattedImage w of None \<Rightarrow> False | Some img \<Rightarrow> mDiscardLevel img = 0)
        in if have_it_all \<and> cur_size > 0
           then release_and_return False (setState DECODE_IMAGE (w\<lparr>mLoadedDiscard := 0\<rparr>)) f1
           else if have_it_all then release_and_return True w f1
           else
             let requested_size = mDesiredSize w - cur_size;
                 requested_offset = cur_size;
                 off = (if requested_offset \<noteq> 0 then requested_offset - 1 else requested_offset);
                 sz = (if requested_offset \<noteq> 0 then requested_size + 1 else requested_size);
                 w1 = w\<lparr>mRequestedSize := sz, mRequestedDiscard := mDesiredDiscard w,
                        mRequestedOffset := off, mLoaded := False, mGetStatus := StatusDefault\<rparr>;
                 f2 = f1\<lparr>mHttpIssued := mHttpIssued f1 @ [the_request env w cur_size]\<rparr>
             in if \<not> requestAccepted env (the_request env w cur_size)
                then release_and_return True (resetFormattedData w1) f2
                else doWork_WAIT_HTTP_REQ env
                       (setState WAIT_HTTP_REQ (w1\<lparr>mHttpActive := True\<rparr>))
                       (addToHTTPQueue (mID w1) f2))"

definition doWork_WAIT_HTTP_RESOURCE ::
  "env \<Rightarrow> worker \<Rightarrow> LLTextureFetch \<Rightarrow> error + bool \<times> worker \<times> LLTextureFetch" where
  "doWork_WAIT_HTTP_RESOURCE env w f =
     (let park = Inr (False,
                      (setState WAIT_HTTP_RESOURCE2 w)\<lparr>mResourceWaitCount := mResourceWaitCount w + 1\<rparr>,
                      addHttpWaiter (mID w) f)
      in if getHttpWaitersCount f \<noteq> 0 then park
         else (case acquireHttpSemaphore w f of
                 (ok, w1, f1) \<Rightarrow>
                   if \<not> ok then park
                   else doWork_SEND_HTTP_REQ env (setState SEND_HTTP_REQ w1) f1))"

text \<open>
  \<^verbatim>\<open>doWork\<close>: the checks at its top, then the block of the worker's state. The blocks of
  the states before \<open>WAIT_HTTP_RESOURCE\<close> and from \<open>DECODE_IMAGE\<close> on work with the cache,
  the region and the decoder; they are outside this model (\<open>Inl OutsideModel\<close>). The
  result is the value \<^verbatim>\<open>doWork\<close> returns, with the worker and the fetcher.
\<close>

definition doWork :: "env \<Rightarrow> worker \<Rightarrow> LLTextureFetch \<Rightarrow> error + bool \<times> worker \<times> LLTextureFetch" where
  "doWork env w f =
     (if (mQuitting f \<or> deleteRequested w) \<and> state_val (mState w) < state_val DECODE_IMAGE
      then Inr (True, w, f)
      else if mImagePriority w < F_ALMOST_ZERO env
              \<and> (mState w = INIT \<or> mState w = LOAD_FROM_NETWORK \<or> mState w = LOAD_FROM_SIMULATOR)
      then Inr (True, w, f)
      else if state_val (mState w) > state_val CACHE_POST \<and> \<not> mCanUseNET w \<and> \<not> mCanUseHTTP w
      then Inr (True, w, f)
      else if mDebugPause f then Inr (False, w, f)
      else if mState w = WAIT_HTTP_RESOURCE then doWork_WAIT_HTTP_RESOURCE env w f
      else if mState w = WAIT_HTTP_RESOURCE2 then Inr (False, w, f)
      else if mState w = SEND_HTTP_REQ then doWork_SEND_HTTP_REQ env w f
      else if mState w = WAIT_HTTP_REQ then doWork_WAIT_HTTP_REQ env w f
      else Inl OutsideModel)"

section \<open>Creating a request\<close>


text \<open>
  The desired size and the desired discard level that \<^verbatim>\<open>createRequest\<close> computes. Its
  arguments \<open>w\<close>, \<open>h\<close> and \<open>c\<close> are \<^verbatim>\<open>S32\<close>, and so are the product \<^verbatim>\<open>w*h*c\<close> and the
  doubled sizes: \<open>s32\<close> is the value of such a computation, the result modulo \<open>2 ^ 32\<close>
  read as a signed number (what the compiled code does when a product leaves the range).
\<close>

definition s32 :: "int \<Rightarrow> int" where
  "s32 x = sint (word_of_int x :: 32 word)"

definition desired_request ::
  "env \<Rightarrow> FTType \<Rightarrow> string \<Rightarrow> int \<Rightarrow> int \<Rightarrow> int \<Rightarrow> int \<Rightarrow> int \<times> int" where
  "desired_request env f_type url w h c desired_discard =
     (if f_type = FTT_SERVER_BAKE \<and> url \<noteq> [] \<and> urlNotJ2C env url
      then (MAX_IMAGE_DATA_SIZE env, 0)
      else if url \<noteq> [] \<and> urlNotJ2C env url then (MAX_IMAGE_DATA_SIZE env, 0)
      else if desired_discard = 0
      then (s32 (calcDataSizeJ2C env w h c desired_discard * 2), desired_discard)
      else if s32 (w * h * c) > 0 then (calcDataSizeJ2C env w h c desired_discard, desired_discard)
      else (s32 (calcDataSizeJ2C env 2048 2048 4 0 * 2),
            if desired_discard \<ge> MAX_DISCARD_LEVEL env then MAX_DISCARD_LEVEL env - 1
            else desired_discard))"








text \<open>
  For the statements about failed requests: the worker as \<^verbatim>\<open>onCompleted\<close> leaves it
  when the request has failed with \<open>status\<close> and is not retried.
\<close>

definition failed_reply :: "HttpStatus \<Rightarrow> worker \<Rightarrow> worker" where
  "failed_reply status w =
     w\<lparr>mHttpActive := False, mGetStatus := status, mRequestedSize := -1, mLoaded := True\<rparr>"

text \<open>
  The reply offset that \<^verbatim>\<open>callbackHttpGet\<close> records for a partial answer: the offset of
  the range header, or the requested offset when the answer carries no usable header.
\<close>

definition reply_offset :: "HttpResponse \<Rightarrow> int \<Rightarrow> nat" where
  "reply_offset response requested_offset =
     (case rRange response of
        (offset, len, full_length) \<Rightarrow>
          if offset = 0 \<and> len = 0 then nat requested_offset else offset)"

section \<open>Example objects\<close>

definition example_worker :: worker where
  "example_worker = LLTextureFetchWorker LLTextureFetch_new 1 FTT_DEFAULT ''http://a/b'' 7 0 10 0 4096"

text \<open>
  A worker parked in \<open>WAIT_HTTP_RESOURCE2\<close>, and a fetcher with one free slot below its
  low-water mark and two parked workers: id 5 with priority 5, id 9 with priority 10.
\<close>

definition parked_worker :: "nat \<Rightarrow> uuid \<Rightarrow> real \<Rightarrow> worker" where
  "parked_worker a tid priority =
     (LLTextureFetchWorker LLTextureFetch_new a FTT_DEFAULT ''http://a/b'' tid 0 priority 0 4096)
       \<lparr>mState := WAIT_HTTP_RESOURCE2\<rparr>"


text \<open>
  A fetcher with one free slot whose wait list holds, beside two parked workers with
  priorities 5 and 7, the id of a worker with priority 10 that is in \<open>INIT\<close>.
\<close>

definition stray_worker :: worker where
  "stray_worker = (parked_worker 300 8 10)\<lparr>mState := INIT\<rparr>"


text \<open>
  An environment: the constants with the values of the image library, range requests
  enabled, a transport that accepts every request, an allocator that never fails and a
  header parser that accepts every buffer.
\<close>

definition example_env :: env where
  "example_env =
     \<lparr>F_ALMOST_ZERO = 1 / 10000, MAX_IMG_PACKET_SIZE = 1000, FIRST_PACKET_SIZE = 600,
      MAX_IMAGE_DATA_SIZE = 33554432, MAX_DISCARD_LEVEL = 5,
      HttpRangeRequestsDisable = False, requestAccepted = (\<lambda>r. True),
      ALLOCATE_MEM = (\<lambda>n. Some (replicate n 0)), updateData = (\<lambda>bs. Some 1),
      newImageDiscard = -1,
      calcDataSizeJ2C = (\<lambda>w h c discard. max 600 (w * h * c div (8 * 4 ^ nat discard))),
      urlNotJ2C = (\<lambda>url. False)\<rparr>"

text \<open>A worker that waits for the packets of an image of three packets.\<close>

definition udp_worker :: worker where
  "udp_worker =
     (LLTextureFetchWorker LLTextureFetch_new 1 FTT_DEFAULT [] 7 3 10 0 4096)
       \<lparr>mState := LOAD_FROM_NETWORK, mSentRequest := SENT_SIM, mTotalPackets := 3,
        mRequestedSize := 4096,
        mFormattedImage := Some \<lparr>mData = [], mDiscardLevel = -1\<rparr>\<rparr>"

text \<open>
  A fetcher whose only worker waits for its header, and one whose worker has received the
  header with the first packet.
\<close>

definition udp_fetcher :: LLTextureFetch where
  "udp_fetcher = LLTextureFetch_new\<lparr>mRequestMap := [7 \<mapsto> udp_worker]\<rparr>"



text \<open>
  A worker created with a url (so \<open>mCanUseNET\<close> is false) that holds the HTTP resource in
  \<open>SEND_HTTP_REQ\<close> and has since been told not to use HTTP, and a fetcher that counts it.
\<close>

definition sending_worker :: worker where
  "sending_worker =
     (LLTextureFetchWorker LLTextureFetch_new 1 FTT_DEFAULT ''http://a/b'' 7 0 10 0 4096)
       \<lparr>mState := SEND_HTTP_REQ, mHttpHasResource := True, mCanUseHTTP := False\<rparr>"

definition one_active :: LLTextureFetch where
  "one_active = LLTextureFetch_new\<lparr>mRequestMap := [7 \<mapsto> sending_worker], mHttpSemaphore := 1\<rparr>"

text \<open>
  Workers whose HTTP request is in flight: a map tile, a default texture without bytes
  that may fall back to UDP, and a default texture that holds three bytes.
\<close>

definition waiting_worker :: "FTType \<Rightarrow> string \<Rightarrow> worker" where
  "waiting_worker t url =
     (LLTextureFetchWorker LLTextureFetch_new 1 t url 7 0 10 1 4096)
       \<lparr>mState := WAIT_HTTP_REQ, mHttpHasResource := True, mHttpActive := True,
        mRequestedSize := 4096, mRequestedDiscard := 1, mUrl := ''http://a/b''\<rparr>"

definition holding_worker :: worker where
  "holding_worker =
     (waiting_worker FTT_DEFAULT ''http://a/b'')
       \<lparr>mFormattedImage := Some \<lparr>mData = [1, 2, 3], mDiscardLevel = 2\<rparr>\<rparr>"

definition not_found_response :: HttpResponse where
  "not_found_response = \<lparr>rStatus = StatusHttp 404, rBody = None, rRange = (0, 0, 0)\<rparr>"

definition not_satisfiable_response :: HttpResponse where
  "not_satisfiable_response = \<lparr>rStatus = StatusHttp 416, rBody = None, rRange = (0, 0, 0)\<rparr>"

text \<open>
  A worker about to resume over HTTP: it holds three bytes of an image at discard
  level 2 and wants 4096. The second one wants a whole image of the largest size.
  The partial answer brings the bytes from offset 2 on.
\<close>

definition resuming_worker :: worker where
  "resuming_worker =
     (LLTextureFetchWorker LLTextureFetch_new 1 FTT_DEFAULT [] 7 0 10 1 4096)
       \<lparr>mState := SEND_HTTP_REQ, mHttpHasResource := True, mUrl := ''http://a/b'',
        mFormattedImage := Some \<lparr>mData = [1, 2, 3], mDiscardLevel = 2\<rparr>\<rparr>"

definition big_resuming_worker :: worker where
  "big_resuming_worker = resuming_worker\<lparr>mDesiredSize := 33554432\<rparr>"

definition partial_response :: HttpResponse where
  "partial_response =
     \<lparr>rStatus = StatusHttp 206, rBody = Some (3 # replicate 4093 9), rRange = (2, 4094, 8192)\<rparr>"

definition far_response :: HttpResponse where
  "far_response =
     \<lparr>rStatus = StatusHttp 206, rBody = Some (replicate 4094 9), rRange = (5, 4094, 8192)\<rparr>"

text \<open>
  A worker that holds a single byte, and the partial answer to its request: the bytes
  from offset 0 on, the first of which is the byte it holds.
\<close>

definition single_byte_worker :: worker where
  "single_byte_worker =
     resuming_worker\<lparr>mFormattedImage := Some \<lparr>mData = [1], mDiscardLevel = 2\<rparr>\<rparr>"

definition from_start_response :: HttpResponse where
  "from_start_response =
     \<lparr>rStatus = StatusHttp 206, rBody = Some (1 # replicate 4095 9), rRange = (0, 4096, 8192)\<rparr>"



section \<open>Properties of the HTTP semaphore\<close>

lemma run_calls_nonneg:
  "run_calls f calls = Inr f' \<Longrightarrow> 0 \<le> mHttpSemaphore f \<Longrightarrow> 0 \<le> mHttpSemaphore f'"
proof (induction calls arbitrary: f)
  case Nil
  then show ?case by simp
next
  case (Cons c cs)
  show ?case
  proof (cases c)
    case (AcquireCall w)
    with Cons.prems have "run_calls (snd (snd (acquireHttpSemaphore w f))) cs = Inr f'"
      by (simp split: prod.splits)
    moreover have "0 \<le> mHttpSemaphore (snd (snd (acquireHttpSemaphore w f)))"
      using Cons.prems(2) by (simp add: acquireHttpSemaphore_def)
    ultimately show ?thesis by (rule Cons.IH)
  next
    case (ReleaseCall w)
    with Cons.prems obtain w1 f1 where r: "releaseHttpSemaphore w f = Inr (w1, f1)"
      and run: "run_calls f1 cs = Inr f'"
      by (auto split: sum.splits)
    from r have "0 \<le> mHttpSemaphore f1"
      by (auto simp: releaseHttpSemaphore_def Let_def split: if_splits)
    with run show ?thesis by (rule Cons.IH)
  qed
qed

lemma run_calls_le_high:
  "run_calls f calls = Inr f' \<Longrightarrow> mHttpSemaphore f \<le> mHttpHighWater f \<Longrightarrow>
     mHttpSemaphore f' \<le> mHttpHighWater f'"
proof (induction calls arbitrary: f)
  case Nil
  then show ?case by simp
next
  case (Cons c cs)
  show ?case
  proof (cases c)
    case (AcquireCall w)
    with Cons.prems have "run_calls (snd (snd (acquireHttpSemaphore w f))) cs = Inr f'"
      by (simp split: prod.splits)
    moreover have "mHttpSemaphore (snd (snd (acquireHttpSemaphore w f)))
                   \<le> mHttpHighWater (snd (snd (acquireHttpSemaphore w f)))"
      using Cons.prems(2) by (simp add: acquireHttpSemaphore_def)
    ultimately show ?thesis by (rule Cons.IH)
  next
    case (ReleaseCall w)
    with Cons.prems obtain w1 f1 where r: "releaseHttpSemaphore w f = Inr (w1, f1)"
      and run: "run_calls f1 cs = Inr f'"
      by (auto split: sum.splits)
    from r Cons.prems(2) have "mHttpSemaphore f1 \<le> mHttpHighWater f1"
      by (auto simp: releaseHttpSemaphore_def Let_def split: if_splits)
    with run show ?thesis by (rule Cons.IH)
  qed
qed

text \<open>
  Claim C1. From an active count of 0, after any sequence of calls of
  \<^verbatim>\<open>acquireHttpSemaphore\<close> and \<^verbatim>\<open>releaseHttpSemaphore\<close> that no assertion stopped: the
  count is not negative; an acquire succeeds, taking the resource and adding one to the
  count, exactly when the count is below the high-water mark, and otherwise returns false
  and changes nothing; after an acquire that succeeded the count does not exceed the
  high-water mark; a release gives the resource back and subtracts one (at a count of 0
  its assertion stops the program); and with a high-water mark that is not negative the
  count never exceeds it.
\<close>

theorem http_semaphore_conservation:
  assumes "mHttpSemaphore f0 = 0" and "run_calls f0 calls = Inr f"
  shows "0 \<le> mHttpSemaphore f
    \<and> acquireHttpSemaphore w f =
        (if mHttpSemaphore f < mHttpHighWater f
         then (True, w\<lparr>mHttpHasResource := True\<rparr>, f\<lparr>mHttpSemaphore := mHttpSemaphore f + 1\<rparr>)
         else (False, w, f))
    \<and> (fst (acquireHttpSemaphore w f) \<longrightarrow>
          mHttpSemaphore (snd (snd (acquireHttpSemaphore w f)))
            \<le> mHttpHighWater (snd (snd (acquireHttpSemaphore w f))))
    \<and> releaseHttpSemaphore w f =
        (if 0 < mHttpSemaphore f
         then Inr (w\<lparr>mHttpHasResource := False\<rparr>, f\<lparr>mHttpSemaphore := mHttpSemaphore f - 1\<rparr>)
         else Inl AssertFailed)
    \<and> (0 \<le> mHttpHighWater f0 \<longrightarrow> mHttpSemaphore f \<le> mHttpHighWater f)"
proof -
  have nonneg: "0 \<le> mHttpSemaphore f"
    using run_calls_nonneg [OF assms(2)] assms(1) by simp
  have acq: "acquireHttpSemaphore w f =
        (if mHttpSemaphore f < mHttpHighWater f
         then (True, w\<lparr>mHttpHasResource := True\<rparr>, f\<lparr>mHttpSemaphore := mHttpSemaphore f + 1\<rparr>)
         else (False, w, f))"
    by (simp add: acquireHttpSemaphore_def)
  have at_acquire: "fst (acquireHttpSemaphore w f) \<longrightarrow>
          mHttpSemaphore (snd (snd (acquireHttpSemaphore w f)))
            \<le> mHttpHighWater (snd (snd (acquireHttpSemaphore w f)))"
    by (simp add: acquireHttpSemaphore_def)
  have rel: "releaseHttpSemaphore w f =
        (if 0 < mHttpSemaphore f
         then Inr (w\<lparr>mHttpHasResource := False\<rparr>, f\<lparr>mHttpSemaphore := mHttpSemaphore f - 1\<rparr>)
         else Inl AssertFailed)"
    by (auto simp: releaseHttpSemaphore_def Let_def)
  have high: "0 \<le> mHttpHighWater f0 \<longrightarrow> mHttpSemaphore f \<le> mHttpHighWater f"
    using run_calls_le_high [OF assms(2)] assms(1) by simp
  from nonneg acq at_acquire rel high show ?thesis by blast
qed

theorem http_semaphore_conservation_witness:
  "mHttpSemaphore LLTextureFetch_new = 0
   \<and> run_calls LLTextureFetch_new
        [AcquireCall example_worker, AcquireCall example_worker, ReleaseCall example_worker]
       = Inr (LLTextureFetch_new\<lparr>mHttpSemaphore := 1\<rparr>)
   \<and> 0 \<le> mHttpSemaphore (LLTextureFetch_new\<lparr>mHttpSemaphore := 1\<rparr>)
   \<and> fst (acquireHttpSemaphore example_worker (LLTextureFetch_new\<lparr>mHttpSemaphore := 1\<rparr>))
   \<and> mHttpSemaphore (snd (snd (acquireHttpSemaphore example_worker (LLTextureFetch_new\<lparr>mHttpSemaphore := 1\<rparr>)))) = 2"
proof -
  have a: "mHttpSemaphore LLTextureFetch_new = 0"
    by (simp add: LLTextureFetch_new_def)
  have r: "run_calls LLTextureFetch_new
        [AcquireCall example_worker, AcquireCall example_worker, ReleaseCall example_worker]
       = Inr (LLTextureFetch_new\<lparr>mHttpSemaphore := 1\<rparr>)"
    by (simp add: LLTextureFetch_new_def acquireHttpSemaphore_def releaseHttpSemaphore_def
          HTTP_NONPIPE_REQUESTS_HIGH_WATER_def Let_def)
  show ?thesis
    using http_semaphore_conservation [OF a r, of example_worker] a r
    by (simp add: LLTextureFetch_new_def HTTP_NONPIPE_REQUESTS_HIGH_WATER_def)
qed


section \<open>Properties of the release of waiters\<close>


lemma mID_granted [simp]: "mID (granted w) = mID w"
  by (simp add: granted_def setState_def)

lemma mState_granted [simp]: "mState (granted w) = SEND_HTTP_REQ"
  by (simp add: granted_def setState_def)

lemma removeHttpWaiter_fields [simp]:
  "mRequestMap (removeHttpWaiter t f) = mRequestMap f"
  "mHttpSemaphore (removeHttpWaiter t f) = mHttpSemaphore f"
  "mHttpHighWater (removeHttpWaiter t f) = mHttpHighWater f"
  "mHttpLowWater (removeHttpWaiter t f) = mHttpLowWater f"
  by (simp_all add: removeHttpWaiter_def)
























lemma parked_worker_fields [simp]:
  "mID (parked_worker a t p) = t"
  "mState (parked_worker a t p) = WAIT_HTTP_RESOURCE2"
  "addr (parked_worker a t p) = a"
  "mImagePriority (parked_worker a t p) = p"
  by (simp_all add: parked_worker_def LLTextureFetchWorker_def setDesiredDiscard_def Let_def
        addWork_def setState_def LLTextureFetch_new_def)











lemma stray_worker_fields [simp]:
  "mID stray_worker = 8" "mState stray_worker = INIT" "addr stray_worker = 300"
  "mImagePriority stray_worker = 10"
  by (simp_all add: stray_worker_def)













section \<open>Properties of the packet reassembly\<close>

declare advanceLastPacket.simps [simp del]

lemma advance_step:
  assumes "0 \<le> lp + 1 \<and> lp + 1 < int (length ps) \<and> ps ! nat (lp + 1) \<noteq> None"
  shows "advanceLastPacket ps lp = advanceLastPacket ps (lp + 1)"
proof -
  have "advanceLastPacket ps lp =
     (if 0 \<le> lp + 1 \<and> lp + 1 < int (length ps) \<and> ps ! nat (lp + 1) \<noteq> None
      then advanceLastPacket ps (lp + 1) else lp)"
    by (rule advanceLastPacket.simps)
  also have "\<dots> = advanceLastPacket ps (lp + 1)" using assms by (rule if_P)
  finally show ?thesis .
qed

lemma advance_stop:
  assumes "\<not> (0 \<le> lp + 1 \<and> lp + 1 < int (length ps) \<and> ps ! nat (lp + 1) \<noteq> None)"
  shows "advanceLastPacket ps lp = lp"
proof -
  have "advanceLastPacket ps lp =
     (if 0 \<le> lp + 1 \<and> lp + 1 < int (length ps) \<and> ps ! nat (lp + 1) \<noteq> None
      then advanceLastPacket ps (lp + 1) else lp)"
    by (rule advanceLastPacket.simps)
  also have "\<dots> = lp" using assms by (rule if_not_P)
  finally show ?thesis .
qed

lemma advance_contiguous:
  "-1 \<le> lp \<Longrightarrow> lp < int (length ps) \<Longrightarrow> (\<forall>i. i \<le> nat lp \<and> 0 \<le> lp \<longrightarrow> ps ! i \<noteq> None) \<Longrightarrow>
   contiguous ps (advanceLastPacket ps lp)"
proof (induction ps lp rule: advanceLastPacket.induct)
  case (1 ps lp)
  show ?case
  proof (cases "0 \<le> lp + 1 \<and> lp + 1 < int (length ps) \<and> ps ! nat (lp + 1) \<noteq> None")
    case True
    note eq = advance_step [OF True]
    have filled: "\<forall>i. i \<le> nat (lp + 1) \<and> 0 \<le> lp + 1 \<longrightarrow> ps ! i \<noteq> None"
    proof (intro allI impI)
      fix i assume i: "i \<le> nat (lp + 1) \<and> 0 \<le> lp + 1"
      show "ps ! i \<noteq> None"
      proof (cases "i = nat (lp + 1)")
        case True
        with \<open>0 \<le> lp + 1 \<and> lp + 1 < int (length ps) \<and> ps ! nat (lp + 1) \<noteq> None\<close> show ?thesis by simp
      next
        case False
        with i have "i \<le> nat lp \<and> 0 \<le> lp" by linarith
        with "1.prems"(3) show ?thesis by blast
      qed
    qed
    have p1: "-1 \<le> lp + 1" using "1.prems"(1) by simp
    have p2: "lp + 1 < int (length ps)" using True by simp
    have "contiguous ps (advanceLastPacket ps (lp + 1))"
      by (rule "1.IH" [OF True p1 p2 filled])
    with eq show ?thesis by simp
  next
    case False
    note eq = advance_stop [OF False]
    have nx: "nat (lp + 1) < length ps \<longrightarrow> ps ! nat (lp + 1) = None"
    proof
      assume "nat (lp + 1) < length ps"
      with "1.prems"(1) have "0 \<le> lp + 1 \<and> lp + 1 < int (length ps)" by linarith
      with False show "ps ! nat (lp + 1) = None" by blast
    qed
    show ?thesis unfolding eq contiguous_def using "1.prems" nx by blast
  qed
qed

lemma insertPacket_rejects:
  "rejects env i s w \<Longrightarrow> insertPacket env i d s w = (False, w)"
  unfolding rejects_def insertPacket_def by (simp only: Let_def) presburger

lemma insertPacket_accepts:
  "\<not> rejects env i s w \<Longrightarrow>
   insertPacket env i d s w
     = (True, w\<lparr>mPackets := stored i d s (mPackets w),
                 mLastPacket := advanceLastPacket (stored i d s (mPackets w)) (mLastPacket w)\<rparr>)"
  unfolding rejects_def insertPacket_def stored_def by (simp only: Let_def) presburger

lemma stored_length: "length ps \<le> length (stored i d s ps)" "i < length (stored i d s ps)"
  by (simp_all add: stored_def)

lemma stored_nth_old: "j < length ps \<Longrightarrow> ps ! j \<noteq> None \<Longrightarrow> stored i d s ps ! j \<noteq> None"
  by (cases "j = i") (simp_all add: stored_def nth_append)

lemma insertPacket_contiguous:
  assumes "contiguous (mPackets w) (mLastPacket w)"
  shows "contiguous (mPackets (snd (insertPacket env i d s w))) (mLastPacket (snd (insertPacket env i d s w)))"
proof (cases "rejects env i s w")
  case True
  from insertPacket_rejects [OF True] assms show ?thesis by simp
next
  case False
  let ?ps = "stored i d s (mPackets w)"
  have a: "-1 \<le> mLastPacket w" "mLastPacket w < int (length (mPackets w))"
    using assms by (simp_all add: contiguous_def)
  have b: "mLastPacket w < int (length ?ps)" using a(2) stored_length(1) [of "mPackets w" i d s] by linarith
  have c: "\<forall>j. j \<le> nat (mLastPacket w) \<and> 0 \<le> mLastPacket w \<longrightarrow> ?ps ! j \<noteq> None"
  proof (intro allI impI)
    fix j assume j: "j \<le> nat (mLastPacket w) \<and> 0 \<le> mLastPacket w"
    then have old: "mPackets w ! j \<noteq> None" using assms by (simp add: contiguous_def)
    from j a(2) have jl: "j < length (mPackets w)" by linarith
    from stored_nth_old [OF jl old] show "?ps ! j \<noteq> None" .
  qed
  from advance_contiguous [OF a(1) b c] show ?thesis
    unfolding insertPacket_accepts [OF False] by simp
qed

lemma deliver_contiguous:
  "contiguous (mPackets w) (mLastPacket w) \<Longrightarrow>
   contiguous (mPackets (deliver env pkts w)) (mLastPacket (deliver env pkts w))"
proof (induction pkts arbitrary: w)
  case Nil
  then show ?case by simp
next
  case (Cons p pkts)
  obtain i d s where p: "p = (i, d, s)" by (cases p) auto
  from Cons.prems have "contiguous (mPackets (snd (insertPacket env i d s w)))
     (mLastPacket (snd (insertPacket env i d s w)))"
    by (rule insertPacket_contiguous)
  from Cons.IH [OF this] show ?case by (simp add: p)
qed

lemma insertPacket_eval:
  assumes "mPackets w = ps" "mLastPacket w = lp" "mTotalPackets w = n"
    and "i < n" "i = 0 \<or> \<not> int i < int n - 1 \<or> s = MAX_IMG_PACKET_SIZE env"
    and "length ps \<le> i \<or> ps ! i = None"
    and "advanceLastPacket (stored i d s ps) lp = lp'"
  shows "insertPacket env i d s w = (True, w\<lparr>mPackets := stored i d s ps, mLastPacket := lp'\<rparr>)"
proof -
  have nr: "\<not> rejects env i s w" using assms(1-6) by (auto simp: rejects_def)
  show ?thesis unfolding insertPacket_accepts [OF nr] using assms by simp
qed

lemma advance_eval_3:
  "advanceLastPacket [Some a] (-1) = 0"
  "advanceLastPacket [Some a, None, Some c] 0 = 0"
  "advanceLastPacket [Some a, Some b] 0 = 1"
  "advanceLastPacket [Some a, Some b, Some c] 0 = 2"
  "advanceLastPacket [Some a, Some b, Some c] 1 = 2"
  by (simp_all add: advance_step advance_stop)

lemma stored_eval_3:
  "stored 0 d s [] = [Some \<lparr>pData = d, pSize = s\<rparr>]"
  "stored 2 d s [a] = [a, None, Some \<lparr>pData = d, pSize = s\<rparr>]"
  "stored 1 d s [a] = [a, Some \<lparr>pData = d, pSize = s\<rparr>]"
  "stored 1 d s [a, None, c] = [a, Some \<lparr>pData = d, pSize = s\<rparr>, c]"
  "stored 2 d s [a, b] = [a, b, Some \<lparr>pData = d, pSize = s\<rparr>]"
  "stored (Suc 0) d s [a] = [a, Some \<lparr>pData = d, pSize = s\<rparr>]"
  "stored (Suc 0) d s [a, None, c] = [a, Some \<lparr>pData = d, pSize = s\<rparr>, c]"
  by (simp_all add: stored_def numeral_2_eq_2)

lemma three_packets:
  assumes fresh: "mPackets w = []" "mLastPacket w = -1" and total: "mTotalPackets w = 3"
    and mid: "s1 = MAX_IMG_PACKET_SIZE env"
  shows "deliver env [(0, d0, s0)] w
           = w\<lparr>mPackets := [Some \<lparr>pData = d0, pSize = s0\<rparr>], mLastPacket := 0\<rparr>"
    and "deliver env [(0, d0, s0), (2, d2, s2)] w
           = w\<lparr>mPackets := [Some \<lparr>pData = d0, pSize = s0\<rparr>, None, Some \<lparr>pData = d2, pSize = s2\<rparr>],
                mLastPacket := 0\<rparr>"
    and "deliver env [(0, d0, s0), (2, d2, s2), (1, d1, s1)] w
           = w\<lparr>mPackets := [Some \<lparr>pData = d0, pSize = s0\<rparr>, Some \<lparr>pData = d1, pSize = s1\<rparr>,
                              Some \<lparr>pData = d2, pSize = s2\<rparr>],
                mLastPacket := 2\<rparr>"
    and "deliver env [(0, d0, s0), (1, d1, s1), (2, d2, s2)] w
           = w\<lparr>mPackets := [Some \<lparr>pData = d0, pSize = s0\<rparr>, Some \<lparr>pData = d1, pSize = s1\<rparr>,
                              Some \<lparr>pData = d2, pSize = s2\<rparr>],
                mLastPacket := 2\<rparr>"
proof -
  let ?p0 = "\<lparr>pData = d0, pSize = s0\<rparr>" and ?p1 = "\<lparr>pData = d1, pSize = s1\<rparr>"
    and ?p2 = "\<lparr>pData = d2, pSize = s2\<rparr>"
  let ?w0 = "w\<lparr>mPackets := [Some ?p0], mLastPacket := 0\<rparr>"
  let ?w02 = "w\<lparr>mPackets := [Some ?p0, None, Some ?p2], mLastPacket := 0\<rparr>"
  let ?w01 = "w\<lparr>mPackets := [Some ?p0, Some ?p1], mLastPacket := 1\<rparr>"
  let ?w3 = "w\<lparr>mPackets := [Some ?p0, Some ?p1, Some ?p2], mLastPacket := 2\<rparr>"
  have i0: "insertPacket env 0 d0 s0 w = (True, ?w0)"
    using insertPacket_eval [of w "[]" "-1" 3 0 s0 env d0 0] fresh total
    by (simp add: stored_eval_3 advance_eval_3)
  have i02: "insertPacket env 2 d2 s2 ?w0 = (True, ?w02)"
    using insertPacket_eval [of ?w0 "[Some ?p0]" 0 3 2 s2 env d2 0] total
    by (simp add: stored_eval_3 advance_eval_3)
  have i021: "insertPacket env 1 d1 s1 ?w02 = (True, ?w3)"
    using insertPacket_eval [of ?w02 "[Some ?p0, None, Some ?p2]" 0 3 1 s1 env d1 2] total mid
    by (simp add: stored_eval_3 advance_eval_3)
  have i01: "insertPacket env 1 d1 s1 ?w0 = (True, ?w01)"
    using insertPacket_eval [of ?w0 "[Some ?p0]" 0 3 1 s1 env d1 1] total mid
    by (simp add: stored_eval_3 advance_eval_3)
  have i012: "insertPacket env 2 d2 s2 ?w01 = (True, ?w3)"
    using insertPacket_eval [of ?w01 "[Some ?p0, Some ?p1]" 1 3 2 s2 env d2 2] total
    by (simp add: stored_eval_3 advance_eval_3)
  show "deliver env [(0, d0, s0)] w = ?w0" by (simp add: i0)
  show "deliver env [(0, d0, s0), (2, d2, s2)] w = ?w02" by (simp add: i0 i02)
  show "deliver env [(0, d0, s0), (2, d2, s2), (1, d1, s1)] w = ?w3" by (simp add: i0 i02 i021 [unfolded One_nat_def])
  show "deliver env [(0, d0, s0), (1, d1, s1), (2, d2, s2)] w = ?w3" by (simp add: i0 i01 [unfolded One_nat_def] i012)
qed


lemma take_memcpy:
  "off + length src \<le> length buf \<Longrightarrow> take (off + length src) (memcpy buf off src) = take off buf @ src"
  by (simp add: memcpy_def)

lemma drop_memcpy:
  "off + length src \<le> k \<Longrightarrow> off + length src \<le> length buf \<Longrightarrow>
   drop k (memcpy buf off src) = drop k buf"
  by (simp add: memcpy_def)

lemma length_memcpy:
  "off + length src \<le> length buf \<Longrightarrow> length (memcpy buf off src) = length buf"
  by (simp add: memcpy_def)

lemma copy_packets_concat:
  "\<forall>p \<in> set pkts. length (pData p) = pSize p \<Longrightarrow>
   off + sum_list (map pSize pkts) \<le> length buf \<Longrightarrow>
   copy_packets buf off pkts
     = take off buf @ concat (map pData pkts) @ drop (off + sum_list (map pSize pkts)) buf"
proof (induction pkts arbitrary: buf off)
  case Nil
  then show ?case by simp
next
  case (Cons p pkts)
  define n where "n = sum_list (map pSize pkts)"
  let ?buf1 = "memcpy buf off (pData p)"
  have tp: "take (pSize p) (pData p) = pData p" and lp: "length (pData p) = pSize p"
    using Cons.prems(1) by simp_all
  have fit: "off + length (pData p) \<le> length buf" using Cons.prems(2) lp by simp
  have l1: "length ?buf1 = length buf" by (rule length_memcpy [OF fit])
  have pre1: "\<forall>q \<in> set pkts. length (pData q) = pSize q" using Cons.prems(1) by simp
  have pre2: "(off + pSize p) + sum_list (map pSize pkts) \<le> length ?buf1"
    using Cons.prems(2) l1 by simp
  have tk: "take (off + pSize p) ?buf1 = take off buf @ pData p"
    using take_memcpy [OF fit] lp by simp
  have dr: "drop (off + pSize p + n) ?buf1 = drop (off + pSize p + n) buf"
    by (rule drop_memcpy [OF _ fit]) (simp add: lp)
  have "copy_packets buf off (p # pkts) = copy_packets ?buf1 (off + pSize p) pkts"
    by (simp add: tp)
  also have "\<dots> = take (off + pSize p) ?buf1 @ concat (map pData pkts) @ drop (off + pSize p + n) ?buf1"
    unfolding n_def by (rule Cons.IH [OF pre1 pre2])
  also have "\<dots> = (take off buf @ pData p) @ concat (map pData pkts) @ drop (off + pSize p + n) buf"
    by (simp only: tk dr)
  also have "\<dots> = take off buf @ concat (map pData (p # pkts)) @ drop (off + sum_list (map pSize (p # pkts))) buf"
    by (simp add: n_def add.assoc)
  finally show ?case .
qed

lemma upto_eval: "[0..2::int] = [0, 1, 2]" "[0..0::int] = [0]"
  by (simp_all add: upto_rec1)

lemma process_all_three:
  assumes img: "mFormattedImage w = Some img" "mData img = []"
    and fp: "mFirstPacket w = 0" and req: "0 < mRequestedSize w"
    and total: "mTotalPackets w = 3"
    and pk: "mPackets w = [Some \<lparr>pData = d0, pSize = s0\<rparr>, Some \<lparr>pData = d1, pSize = s1\<rparr>,
                              Some \<lparr>pData = d2, pSize = s2\<rparr>]"
    and lp: "mLastPacket w = 2"
    and len: "length d0 = s0" "length d1 = s1" "length d2 = s2" "0 < s0 + s1 + s2"
    and alloc: "ALLOCATE_MEM env (s0 + s1 + s2) = Some b" "length b = s0 + s1 + s2"
  shows "processSimulatorPackets env w
          = Inr (True, w\<lparr>mHaveAllData := True,
                           mFormattedImage := Some (img\<lparr>mData := d0 @ d1 @ d2\<rparr>),
                           mLoadedDiscard := mRequestedDiscard w\<rparr>)"
proof -
  let ?pkts = "[\<lparr>pData = d0, pSize = s0\<rparr>, \<lparr>pData = d1, pSize = s1\<rparr>, \<lparr>pData = d2, pSize = s2\<rparr>]"
  have pb: "packets_between (mPackets w) 0 2 = Some ?pkts"
    by (simp add: packets_between_def pk upto_eval)
  have cp: "copy_packets b 0 ?pkts = d0 @ d1 @ d2"
    using copy_packets_concat [of ?pkts 0 b] len alloc(2) by simp
  have n: "nat (int s0 + (int s1 + int s2)) = s0 + s1 + s2" by linarith
  have pos: "0 < int s0 + (int s1 + int s2)" using len(4) by linarith
  show ?thesis
    using img fp req total lp pos alloc(1)
    by (simp add: processSimulatorPackets_def pb Let_def cp n del: copy_packets.simps)
qed

lemma process_gap:
  assumes img: "mFormattedImage w = Some img" "mData img = []"
    and fp: "mFirstPacket w = 0" and req: "int s0 < mRequestedSize w"
    and total: "mTotalPackets w = 3"
    and pk: "mPackets w = [Some \<lparr>pData = d0, pSize = s0\<rparr>, None, Some \<lparr>pData = d2, pSize = s2\<rparr>]"
    and lp: "mLastPacket w = 0"
  shows "processSimulatorPackets env w = Inr (False, w)"
proof -
  have pb: "packets_between (mPackets w) 0 0 = Some [\<lparr>pData = d0, pSize = s0\<rparr>]"
    by (simp add: packets_between_def pk upto_eval)
  show ?thesis
    using img fp req total lp
    by (simp add: processSimulatorPackets_def pb Let_def)
qed

text \<open>
  Claim C7. For a worker that expects three packets and holds none: delivering the packets
  0, 2, 1 leaves the same worker (the same packet vector, the same last packet of the
  filled prefix, every other field) as delivering 0, 1, 2, so
  \<^verbatim>\<open>processSimulatorPackets\<close> returns the same result; with an empty formatted image and
  a positive requested size that result is the buffer \<open>d0 @ d1 @ d2\<close>. After 0 and 2 the
  vector holds packet 2 while the last packet of the prefix is still 0, and
  \<^verbatim>\<open>processSimulatorPackets\<close> counts packet 0 alone. After any sequence of deliveries
  the slots up to the last packet of the prefix are filled and the next slot is empty.
\<close>

theorem udp_packets_any_order:
  assumes fresh: "mPackets w = []" "mLastPacket w = -1" and total: "mTotalPackets w = 3"
    and mid: "s1 = MAX_IMG_PACKET_SIZE env"
  shows "deliver env [(0, d0, s0), (2, d2, s2), (1, d1, s1)] w
           = deliver env [(0, d0, s0), (1, d1, s1), (2, d2, s2)] w
       \<and> mPackets (deliver env [(0, d0, s0), (2, d2, s2), (1, d1, s1)] w)
           = [Some \<lparr>pData = d0, pSize = s0\<rparr>, Some \<lparr>pData = d1, pSize = s1\<rparr>,
              Some \<lparr>pData = d2, pSize = s2\<rparr>]
       \<and> mLastPacket (deliver env [(0, d0, s0), (2, d2, s2), (1, d1, s1)] w) = 2
       \<and> processSimulatorPackets env (deliver env [(0, d0, s0), (2, d2, s2), (1, d1, s1)] w)
           = processSimulatorPackets env (deliver env [(0, d0, s0), (1, d1, s1), (2, d2, s2)] w)
       \<and> mPackets (deliver env [(0, d0, s0), (2, d2, s2)] w)
           = [Some \<lparr>pData = d0, pSize = s0\<rparr>, None, Some \<lparr>pData = d2, pSize = s2\<rparr>]
       \<and> mLastPacket (deliver env [(0, d0, s0), (2, d2, s2)] w) = 0
       \<and> (\<forall>pkts. contiguous (mPackets (deliver env pkts w)) (mLastPacket (deliver env pkts w)))
       \<and> (mFormattedImage w = Some img \<and> mData img = [] \<and> mFirstPacket w = 0
            \<and> int s0 < mRequestedSize w \<longrightarrow>
            processSimulatorPackets env (deliver env [(0, d0, s0), (2, d2, s2)] w)
              = Inr (False, deliver env [(0, d0, s0), (2, d2, s2)] w))
       \<and> (mFormattedImage w = Some img \<and> mData img = [] \<and> mFirstPacket w = 0
            \<and> 0 < mRequestedSize w
            \<and> length d0 = s0 \<and> length d1 = s1 \<and> length d2 = s2 \<and> 0 < s0 + s1 + s2
            \<and> ALLOCATE_MEM env (s0 + s1 + s2) = Some b \<and> length b = s0 + s1 + s2 \<longrightarrow>
            processSimulatorPackets env (deliver env [(0, d0, s0), (2, d2, s2), (1, d1, s1)] w)
              = Inr (True, (deliver env [(0, d0, s0), (2, d2, s2), (1, d1, s1)] w)
                             \<lparr>mHaveAllData := True,
                              mFormattedImage := Some (img\<lparr>mData := d0 @ d1 @ d2\<rparr>),
                              mLoadedDiscard := mRequestedDiscard w\<rparr>))"
proof -
  note tp = three_packets [OF fresh total mid]
  let ?w02 = "deliver env [(0, d0, s0), (2, d2, s2)] w"
  let ?w021 = "deliver env [(0, d0, s0), (2, d2, s2), (1, d1, s1)] w"
  let ?w012 = "deliver env [(0, d0, s0), (1, d1, s1), (2, d2, s2)] w"
  have e: "?w021 = ?w012" by (simp only: tp)
  have p: "mPackets ?w021 = [Some \<lparr>pData = d0, pSize = s0\<rparr>, Some \<lparr>pData = d1, pSize = s1\<rparr>,
              Some \<lparr>pData = d2, pSize = s2\<rparr>]"
    by (simp only: tp) simp
  have l: "mLastPacket ?w021 = 2" by (simp only: tp) simp
  have pr: "processSimulatorPackets env ?w021 = processSimulatorPackets env ?w012"
    by (simp only: e)
  have p2: "mPackets ?w02 = [Some \<lparr>pData = d0, pSize = s0\<rparr>, None, Some \<lparr>pData = d2, pSize = s2\<rparr>]"
    by (simp only: tp) simp
  have l2: "mLastPacket ?w02 = 0" by (simp only: tp) simp
  have c0: "contiguous (mPackets w) (mLastPacket w)"
    by (simp add: fresh contiguous_def)
  have inv: "\<forall>pkts. contiguous (mPackets (deliver env pkts w)) (mLastPacket (deliver env pkts w))"
    using deliver_contiguous [OF c0] by blast
  have gap: "mFormattedImage w = Some img \<and> mData img = [] \<and> mFirstPacket w = 0
            \<and> int s0 < mRequestedSize w \<longrightarrow>
            processSimulatorPackets env ?w02 = Inr (False, ?w02)"
  proof
    assume a: "mFormattedImage w = Some img \<and> mData img = [] \<and> mFirstPacket w = 0
            \<and> int s0 < mRequestedSize w"
    show "processSimulatorPackets env ?w02 = Inr (False, ?w02)"
      unfolding tp
      by (rule process_gap [where img = img and ?d0.0 = d0 and ?s0.0 = s0 and ?d2.0 = d2 and ?s2.0 = s2])
         (insert a total, simp_all)
  qed
  have full: "mFormattedImage w = Some img \<and> mData img = [] \<and> mFirstPacket w = 0
            \<and> 0 < mRequestedSize w
            \<and> length d0 = s0 \<and> length d1 = s1 \<and> length d2 = s2 \<and> 0 < s0 + s1 + s2
            \<and> ALLOCATE_MEM env (s0 + s1 + s2) = Some b \<and> length b = s0 + s1 + s2 \<longrightarrow>
            processSimulatorPackets env ?w021
              = Inr (True, ?w021\<lparr>mHaveAllData := True,
                              mFormattedImage := Some (img\<lparr>mData := d0 @ d1 @ d2\<rparr>),
                              mLoadedDiscard := mRequestedDiscard w\<rparr>)"
  proof
    assume a: "mFormattedImage w = Some img \<and> mData img = [] \<and> mFirstPacket w = 0
            \<and> 0 < mRequestedSize w
            \<and> length d0 = s0 \<and> length d1 = s1 \<and> length d2 = s2 \<and> 0 < s0 + s1 + s2
            \<and> ALLOCATE_MEM env (s0 + s1 + s2) = Some b \<and> length b = s0 + s1 + s2"
    have "processSimulatorPackets env ?w021
          = Inr (True, ?w021\<lparr>mHaveAllData := True,
                           mFormattedImage := Some (img\<lparr>mData := d0 @ d1 @ d2\<rparr>),
                           mLoadedDiscard := mRequestedDiscard ?w021\<rparr>)"
      unfolding tp
      by (rule process_all_three [where b = b and ?s0.0 = s0 and ?s1.0 = s1 and ?s2.0 = s2])
         (insert a total, simp_all)
    then show "processSimulatorPackets env ?w021
              = Inr (True, ?w021\<lparr>mHaveAllData := True,
                              mFormattedImage := Some (img\<lparr>mData := d0 @ d1 @ d2\<rparr>),
                              mLoadedDiscard := mRequestedDiscard w\<rparr>)"
      by (simp only: tp) simp
  qed
  from e p l pr p2 l2 inv gap full show ?thesis by blast
qed

lemma udp_worker_fields:
  "mPackets udp_worker = []" "mLastPacket udp_worker = -1" "mTotalPackets udp_worker = 3"
  "mFormattedImage udp_worker = Some \<lparr>mData = [], mDiscardLevel = -1\<rparr>"
  "mFirstPacket udp_worker = 0" "mRequestedSize udp_worker = 4096"
  "mRequestedDiscard udp_worker = -1" "mState udp_worker = LOAD_FROM_NETWORK"
  "mID udp_worker = 7" "mHost udp_worker = 3"
  by (simp_all add: udp_worker_def LLTextureFetchWorker_def setDesiredDiscard_def Let_def
        addWork_def setState_def LLTextureFetch_new_def)

lemma example_env_fields:
  "MAX_IMG_PACKET_SIZE example_env = 1000"
  "ALLOCATE_MEM example_env n = Some (replicate n 0)"
  by (simp_all add: example_env_def)

theorem udp_packets_any_order_witness:
  "mPackets udp_worker = [] \<and> mLastPacket udp_worker = -1 \<and> mTotalPackets udp_worker = 3
   \<and> (1000 :: nat) = MAX_IMG_PACKET_SIZE example_env
   \<and> deliver example_env [(0, [1, 2], 2), (2, [3], 1), (1, replicate 1000 7, 1000)] udp_worker
       = deliver example_env [(0, [1, 2], 2), (1, replicate 1000 7, 1000), (2, [3], 1)] udp_worker
   \<and> mLastPacket (deliver example_env [(0, [1, 2], 2), (2, [3], 1), (1, replicate 1000 7, 1000)] udp_worker) = 2
   \<and> mLastPacket (deliver example_env [(0, [1, 2], 2), (2, [3], 1)] udp_worker) = 0
   \<and> processSimulatorPackets example_env (deliver example_env [(0, [1, 2], 2), (2, [3], 1)] udp_worker)
       = Inr (False, deliver example_env [(0, [1, 2], 2), (2, [3], 1)] udp_worker)
   \<and> processSimulatorPackets example_env
         (deliver example_env [(0, [1, 2], 2), (2, [3], 1), (1, replicate 1000 7, 1000)] udp_worker)
       = Inr (True, (deliver example_env [(0, [1, 2], 2), (2, [3], 1), (1, replicate 1000 7, 1000)] udp_worker)
                      \<lparr>mHaveAllData := True,
                       mFormattedImage := Some \<lparr>mData = [1, 2] @ replicate 1000 7 @ [3], mDiscardLevel = -1\<rparr>,
                       mLoadedDiscard := -1\<rparr>)"
proof -
  have m: "(1000 :: nat) = MAX_IMG_PACKET_SIZE example_env" by (simp add: example_env_fields)
  note T = udp_packets_any_order [OF udp_worker_fields(1,2,3) m,
      where ?d0.0 = "[1, 2]" and ?s0.0 = 2 and ?d2.0 = "[3]" and ?s2.0 = 1 and ?d1.0 = "replicate 1000 7"
        and img = "\<lparr>mData = [], mDiscardLevel = -1\<rparr>" and b = "replicate 1003 0"]
  have g: "mFormattedImage udp_worker = Some \<lparr>mData = [], mDiscardLevel = -1\<rparr>
           \<and> mData \<lparr>mData = [], mDiscardLevel = -1\<rparr> = [] \<and> mFirstPacket udp_worker = 0
           \<and> int 2 < mRequestedSize udp_worker"
    by (simp add: udp_worker_fields)
  have f: "mFormattedImage udp_worker = Some \<lparr>mData = [], mDiscardLevel = -1\<rparr>
           \<and> mData \<lparr>mData = [], mDiscardLevel = -1\<rparr> = [] \<and> mFirstPacket udp_worker = 0
           \<and> 0 < mRequestedSize udp_worker
           \<and> length [1, 2 :: byte] = 2 \<and> length (replicate 1000 (7 :: byte)) = 1000 \<and> length [3 :: byte] = 1
           \<and> 0 < (2 :: nat) + 1000 + 1
           \<and> ALLOCATE_MEM example_env (2 + 1000 + 1) = Some (replicate 1003 0)
           \<and> length (replicate 1003 (0 :: byte)) = 2 + 1000 + 1"
    by (simp add: udp_worker_fields example_env_fields)
  from T g have t1: "processSimulatorPackets example_env (deliver example_env [(0, [1, 2], 2), (2, [3], 1)] udp_worker)
       = Inr (False, deliver example_env [(0, [1, 2], 2), (2, [3], 1)] udp_worker)"
    by blast
  from T f have t2: "processSimulatorPackets example_env
         (deliver example_env [(0, [1, 2], 2), (2, [3], 1), (1, replicate 1000 7, 1000)] udp_worker)
       = Inr (True, (deliver example_env [(0, [1, 2], 2), (2, [3], 1), (1, replicate 1000 7, 1000)] udp_worker)
                      \<lparr>mHaveAllData := True,
                       mFormattedImage := Some (\<lparr>mData = [], mDiscardLevel = -1\<rparr>\<lparr>mData := [1, 2] @ replicate 1000 7 @ [3]\<rparr>),
                       mLoadedDiscard := mRequestedDiscard udp_worker\<rparr>)"
    by blast
  have t2': "processSimulatorPackets example_env
         (deliver example_env [(0, [1, 2], 2), (2, [3], 1), (1, replicate 1000 7, 1000)] udp_worker)
       = Inr (True, (deliver example_env [(0, [1, 2], 2), (2, [3], 1), (1, replicate 1000 7, 1000)] udp_worker)
                      \<lparr>mHaveAllData := True,
                       mFormattedImage := Some \<lparr>mData = [1, 2] @ replicate 1000 7 @ [3], mDiscardLevel = -1\<rparr>,
                       mLoadedDiscard := -1\<rparr>)"
    unfolding t2 by (simp add: udp_worker_fields del: deliver.simps)
  from T have t3: "deliver example_env [(0, [1, 2], 2), (2, [3], 1), (1, replicate 1000 7, 1000)] udp_worker
       = deliver example_env [(0, [1, 2], 2), (1, replicate 1000 7, 1000), (2, [3], 1)] udp_worker"
     and t4: "mLastPacket (deliver example_env [(0, [1, 2], 2), (2, [3], 1), (1, replicate 1000 7, 1000)] udp_worker) = 2"
     and t5: "mLastPacket (deliver example_env [(0, [1, 2], 2), (2, [3], 1)] udp_worker) = 0"
    by blast+
  from udp_worker_fields(1,2,3) m t1 t2' t3 t4 t5 show ?thesis by blast
qed

text \<open>
  Claim C10. When \<^verbatim>\<open>receiveImagePacket\<close> finds a worker that has no header yet
  (\<open>mLastPacket = -1\<close>), or is given a size of zero, it returns false, and the fetcher
  changes in three places only: the packet counter and the bad-packet counter grow by one
  and the id joins the cancellations for the sending host. The worker is untouched: the
  packet is not inserted.
\<close>

theorem receiveImagePacket_before_header:
  assumes "getWorker f tid = Some worker" and "mLastPacket worker = -1 \<or> data_size = 0"
  shows "receiveImagePacket env h tid packet_num data_size data f
           = (False, f\<lparr>mPacketCount := mPacketCount f + 1,
                        mBadPacketCount := mBadPacketCount f + 1,
                        mCancelQueue := (mCancelQueue f)(h := insert tid (mCancelQueue f h))\<rparr>)"
  using assms
  by (auto simp: receiveImagePacket_def getWorker_def count_bad_packet_def Let_def)

lemma udp_fetcher_fields:
  "getWorker udp_fetcher 7 = Some udp_worker"
  "mPacketCount udp_fetcher = 0" "mBadPacketCount udp_fetcher = 0"
  "mCancelQueue udp_fetcher = (\<lambda>h. {})"
  by (simp_all add: udp_fetcher_def getWorker_def LLTextureFetch_new_def)

theorem receiveImagePacket_before_header_witness:
  "getWorker udp_fetcher 7 = Some udp_worker
   \<and> mLastPacket udp_worker = -1
   \<and> fst (receiveImagePacket example_env 3 7 1 1000 (replicate 1000 5) udp_fetcher) = False
   \<and> mBadPacketCount (snd (receiveImagePacket example_env 3 7 1 1000 (replicate 1000 5) udp_fetcher)) = 1
   \<and> mCancelQueue (snd (receiveImagePacket example_env 3 7 1 1000 (replicate 1000 5) udp_fetcher)) 3 = {7}
   \<and> mRequestMap (snd (receiveImagePacket example_env 3 7 1 1000 (replicate 1000 5) udp_fetcher)) 7
        = Some udp_worker"
proof -
  have a: "mLastPacket udp_worker = -1 \<or> (1000 :: nat) = 0" by (simp add: udp_worker_fields)
  note T = receiveImagePacket_before_header [OF udp_fetcher_fields(1) a,
              of example_env 3 1 "replicate 1000 5"]
  show ?thesis
    unfolding T using udp_fetcher_fields udp_worker_fields(2) by (simp add: getWorker_def)
qed








section \<open>Properties of the HTTP states\<close>

lemma release_and_return_eq:
  "release_and_return r w f =
     (if 0 < mHttpSemaphore f
      then Inr (r, w\<lparr>mHttpHasResource := False\<rparr>, f\<lparr>mHttpSemaphore := mHttpSemaphore f - 1\<rparr>)
      else Inl AssertFailed)"
  by (auto simp: release_and_return_def releaseHttpSemaphore_def Let_def)

lemma sending_worker_fields:
  "mState sending_worker = SEND_HTTP_REQ" "mHttpHasResource sending_worker"
  "\<not> mCanUseHTTP sending_worker" "\<not> mCanUseNET sending_worker"
  "\<not> deleteRequested sending_worker" "mImagePriority sending_worker = 10"
  by (simp_all add: sending_worker_def LLTextureFetchWorker_def setDesiredDiscard_def Let_def
        addWork_def setState_def LLTextureFetch_new_def)

lemma one_active_fields:
  "mHttpSemaphore one_active = 1" "\<not> mQuitting one_active" "\<not> mDebugPause one_active"
  by (simp_all add: one_active_def LLTextureFetch_new_def)

text \<open>
  Inside the blocks of \<open>SEND_HTTP_REQ\<close> and \<open>WAIT_HTTP_REQ\<close> every return either keeps
  the request going (the worker is in \<open>WAIT_HTTP_REQ\<close> afterwards and holds what it held)
  or has released the resource. The completion callback leaves the state alone, except
  when it sends a server bake back to \<open>LOAD_FROM_NETWORK\<close> for a retry, and then it
  releases. So the only returns of \<^verbatim>\<open>doWork\<close> that end the request of a worker in one of
  the two states with the resource still held are the checks at its top.
\<close>

lemma release_and_return_props:
  "release_and_return r x f = Inr (r', w', f') \<Longrightarrow>
     r' = r \<and> \<not> mHttpHasResource w' \<and> mHttpSemaphore f' = mHttpSemaphore f - 1
     \<and> mState w' = mState x"
  by (auto simp: release_and_return_eq split: if_splits)

lemma doWork_WAIT_HTTP_REQ_releases:
  assumes "doWork_WAIT_HTTP_REQ env w f = Inr (r, w', f')"
  shows "(\<not> r \<and> w' = w \<and> f' = f \<and> \<not> mLoaded w)
       \<or> (\<not> mHttpHasResource w' \<and> mHttpSemaphore f' = mHttpSemaphore f - 1)"
  using assms unfolding doWork_WAIT_HTTP_REQ_def Let_def
  by (auto split: if_splits option.splits dest!: release_and_return_props)

lemma doWork_SEND_HTTP_REQ_releases:
  assumes "doWork_SEND_HTTP_REQ env w f = Inr (r, w', f')"
  shows "(\<not> r \<and> mState w' = WAIT_HTTP_REQ \<and> mHttpHasResource w' = mHttpHasResource w
            \<and> mHttpSemaphore f' = mHttpSemaphore f)
       \<or> (\<not> mHttpHasResource w' \<and> mHttpSemaphore f' = mHttpSemaphore f - 1)"
  using assms unfolding doWork_SEND_HTTP_REQ_def Let_def
  by (auto simp: doWork_WAIT_HTTP_REQ_def setState_def resetFormattedData_def
        removeFromNetworkQueue_def addToHTTPQueue_def
        split: if_splits option.splits dest!: release_and_return_props)

lemma onCompleted_releases:
  assumes "onCompleted should_retry response w f = Inr (w', f')"
  shows "(mState w' = mState w \<and> mHttpHasResource w' = mHttpHasResource w
            \<and> mHttpSemaphore f' = mHttpSemaphore f)
       \<or> (mState w' = LOAD_FROM_NETWORK \<and> \<not> mHttpHasResource w'
            \<and> mHttpSemaphore f' = mHttpSemaphore f - 1)"
  using assms unfolding onCompleted_def callbackHttpGet_def Let_def releaseHttpSemaphore_def
  by (auto simp: setState_def removeFromHTTPQueue_def
        split: if_splits option.splits prod.splits sum.splits)

lemma doWork_http_exits:
  assumes st: "mState w = SEND_HTTP_REQ \<or> mState w = WAIT_HTTP_REQ"
    and run: "doWork env w f = Inr (r, w', f')"
  shows "(w' = w \<and> f' = f
            \<and> (r \<longrightarrow> mQuitting f \<or> deleteRequested w \<or> (\<not> mCanUseNET w \<and> \<not> mCanUseHTTP w)))
       \<or> (\<not> r \<and> mState w' = WAIT_HTTP_REQ \<and> mHttpHasResource w' = mHttpHasResource w
            \<and> mHttpSemaphore f' = mHttpSemaphore f)
       \<or> (\<not> mHttpHasResource w' \<and> mHttpSemaphore f' = mHttpSemaphore f - 1)"
proof (cases "(mQuitting f \<or> deleteRequested w) \<or> (\<not> mCanUseNET w \<and> \<not> mCanUseHTTP w)
                \<or> mDebugPause f")
  case True
  then show ?thesis using st run by (auto simp: doWork_def split: if_splits)
next
  case False
  show ?thesis
  proof (cases "mState w = SEND_HTTP_REQ")
    case True
    then have "doWork env w f = doWork_SEND_HTTP_REQ env w f"
      using False by (auto simp: doWork_def)
    with run have "doWork_SEND_HTTP_REQ env w f = Inr (r, w', f')" by simp
    from doWork_SEND_HTTP_REQ_releases [OF this] show ?thesis by blast
  next
    case nosend: False
    then have w: "mState w = WAIT_HTTP_REQ" using st by simp
    then have "doWork env w f = doWork_WAIT_HTTP_REQ env w f"
      using False by (auto simp: doWork_def)
    with run have "doWork_WAIT_HTTP_REQ env w f = Inr (r, w', f')" by simp
    from doWork_WAIT_HTTP_REQ_releases [OF this] show ?thesis by blast
  qed
qed

text \<open>
  Claim C3 at a failing input. The worker holds the resource in \<open>SEND_HTTP_REQ\<close> and can
  use neither HTTP nor UDP. \<^verbatim>\<open>doWork\<close> aborts at its third check: it returns true with
  the worker and the fetcher as they were, so the resource is still held and still
  counted. The block of \<open>SEND_HTTP_REQ\<close>, which the check keeps \<^verbatim>\<open>doWork\<close> from
  reaching, would have released it for the same worker.
\<close>

theorem doWork_abort_keeps_resource:
  "mState sending_worker = SEND_HTTP_REQ
   \<and> mHttpHasResource sending_worker
   \<and> mHttpSemaphore one_active = 1
   \<and> doWork example_env sending_worker one_active = Inr (True, sending_worker, one_active)
   \<and> doWork_SEND_HTTP_REQ example_env sending_worker one_active
        = Inr (True, sending_worker\<lparr>mHttpHasResource := False\<rparr>, one_active\<lparr>mHttpSemaphore := 0\<rparr>)"
  by (simp add: doWork_def doWork_SEND_HTTP_REQ_def release_and_return_eq
        sending_worker_fields one_active_fields)

lemma onCompleted_failure:
  assumes "mState w = WAIT_HTTP_REQ" "\<not> mLoaded w" "\<not> status_ok (rStatus response)"
    and "\<not> (mFTType w = FTT_SERVER_BAKE \<and> should_retry)"
  shows "onCompleted should_retry response w f
           = Inr (failed_reply (rStatus response) w, removeFromHTTPQueue (mID w) f)"
  using assms
  by (auto simp: onCompleted_def callbackHttpGet_def failed_reply_def Let_def)

lemma doWork_enters_WAIT_HTTP_REQ:
  assumes "mState w = WAIT_HTTP_REQ" "\<not> mQuitting f" "\<not> deleteRequested w"
    "mCanUseNET w \<or> mCanUseHTTP w" "\<not> mDebugPause f"
  shows "doWork env w f = doWork_WAIT_HTTP_REQ env w f"
  using assms by (auto simp: doWork_def)

lemma failed_reply_fields [simp]:
  "mState (failed_reply s w) = mState w" "mLoaded (failed_reply s w)"
  "mRequestedSize (failed_reply s w) = -1" "mGetStatus (failed_reply s w) = s"
  "mFTType (failed_reply s w) = mFTType w" "mCanUseNET (failed_reply s w) = mCanUseNET w"
  "mCanUseHTTP (failed_reply s w) = mCanUseHTTP w"
  "deleteRequested (failed_reply s w) = deleteRequested w"
  "mFormattedImage (failed_reply s w) = mFormattedImage w"
  "mID (failed_reply s w) = mID w"
  by (simp_all add: failed_reply_def)

lemma removeFromHTTPQueue_fields [simp]:
  "mQuitting (removeFromHTTPQueue t f) = mQuitting f"
  "mDebugPause (removeFromHTTPQueue t f) = mDebugPause f"
  "mHttpSemaphore (removeFromHTTPQueue t f) = mHttpSemaphore f"
  by (simp_all add: removeFromHTTPQueue_def)



lemma not_sat_other:
  "http_not_sat \<noteq> http_not_found" "http_not_sat \<noteq> http_service_unavail"
  by (simp_all add: http_not_sat_def http_not_found_def http_service_unavail_def)

lemma doWork_not_sat_bytes:
  assumes st: "mState w = WAIT_HTTP_REQ" and ld: "mLoaded w" and rs: "mRequestedSize w < 0"
    and gs: "mGetStatus w = http_not_sat"
    and img: "mFormattedImage w = Some img" "mData img \<noteq> []"
    and checks: "\<not> mQuitting f" "\<not> deleteRequested w" "mCanUseNET w \<or> mCanUseHTTP w"
                "\<not> mDebugPause f"
    and held: "0 < mHttpSemaphore f"
  shows "doWork env w f
           = Inr (False,
                  w\<lparr>mPrevState := WAIT_HTTP_REQ, mState := DECODE_IMAGE, mHaveAllData := True,
                    mUrl := (if mFTType w = FTT_SERVER_BAKE then mUrl w else []),
                    mLoadedDiscard := mDiscardLevel img, mHttpHasResource := False\<rparr>,
                  f\<lparr>mHttpSemaphore := mHttpSemaphore f - 1\<rparr>)"
  unfolding doWork_enters_WAIT_HTTP_REQ [OF st checks]
  using st ld rs gs img held not_sat_other
  by (simp add: doWork_WAIT_HTTP_REQ_def Let_def release_and_return_eq setState_def
        getDataSize_def)

lemma doWork_not_sat_no_bytes:
  assumes st: "mState w = WAIT_HTTP_REQ" and ld: "mLoaded w" and rs: "mRequestedSize w < 0"
    and gs: "mGetStatus w = http_not_sat"
    and nb: "getDataSize (mFormattedImage w) = 0"
    and checks: "\<not> mQuitting f" "\<not> deleteRequested w" "mCanUseNET w \<or> mCanUseHTTP w"
                "\<not> mDebugPause f"
    and held: "0 < mHttpSemaphore f"
  shows "doWork env w f
           = Inr (True,
                  w\<lparr>mPrevState := WAIT_HTTP_REQ, mState := DONE, mHaveAllData := False,
                    mUrl := (if mFTType w = FTT_SERVER_BAKE then mUrl w else []),
                    mFormattedImage := map_option deleteData (mFormattedImage w),
                    mHttpBufferArray := None, mHttpReplySize := 0, mHttpReplyOffset := 0,
                    mHttpHasResource := False\<rparr>,
                  f\<lparr>mHttpSemaphore := mHttpSemaphore f - 1\<rparr>)"
  unfolding doWork_enters_WAIT_HTTP_REQ [OF st checks]
  using st ld rs gs nb held not_sat_other
  by (simp add: doWork_WAIT_HTTP_REQ_def Let_def release_and_return_eq setState_def
        resetFormattedData_def)


text \<open>
  Claim C5, amended. A request in flight fails with status 416 and is not retried. The
  completion callback records the failure; the next \<^verbatim>\<open>doWork\<close> (whose checks at the top
  pass) clears the url (a server bake keeps it) and releases the resource. If the worker
  holds bytes, \<^verbatim>\<open>doWork\<close> returns false with the worker in state \<open>DECODE_IMAGE\<close>,
  \<open>mHaveAllData\<close> set, the bytes kept and the discard level of its formatted image as the
  loaded one. If it holds none, \<^verbatim>\<open>doWork\<close> returns true with the worker in state
  \<open>DONE\<close> and \<open>mHaveAllData\<close> false: the flag is set and then cleared again when the
  formatted data is reset.
\<close>

theorem http_416_have_all_data:
  assumes st: "mState w = WAIT_HTTP_REQ" and nl: "\<not> mLoaded w"
    and resp: "rStatus response = http_not_sat"
    and noretry: "\<not> (mFTType w = FTT_SERVER_BAKE \<and> should_retry)"
    and checks: "\<not> mQuitting f" "\<not> deleteRequested w" "mCanUseNET w \<or> mCanUseHTTP w"
                "\<not> mDebugPause f"
    and held: "0 < mHttpSemaphore f"
  shows "onCompleted should_retry response w f
           = Inr (failed_reply http_not_sat w, removeFromHTTPQueue (mID w) f)
       \<and> (\<forall>img. mFormattedImage w = Some img \<and> mData img \<noteq> [] \<longrightarrow>
            (\<exists>w' f'.
               doWork env (failed_reply http_not_sat w) (removeFromHTTPQueue (mID w) f)
                 = Inr (False, w', f')
             \<and> mState w' = DECODE_IMAGE \<and> mPrevState w' = WAIT_HTTP_REQ
             \<and> mHaveAllData w'
             \<and> mFormattedImage w' = Some img
             \<and> mLoadedDiscard w' = mDiscardLevel img
             \<and> \<not> mHttpHasResource w'
             \<and> mHttpSemaphore f' = mHttpSemaphore f - 1
             \<and> w' = (failed_reply http_not_sat w)
                       \<lparr>mPrevState := WAIT_HTTP_REQ, mState := DECODE_IMAGE,
                        mHaveAllData := True,
                        mUrl := (if mFTType w = FTT_SERVER_BAKE then mUrl w else []),
                        mLoadedDiscard := mDiscardLevel img, mHttpHasResource := False\<rparr>
             \<and> f' = (removeFromHTTPQueue (mID w) f)\<lparr>mHttpSemaphore := mHttpSemaphore f - 1\<rparr>))
       \<and> (getDataSize (mFormattedImage w) = 0 \<longrightarrow>
            (\<exists>w' f'.
               doWork env (failed_reply http_not_sat w) (removeFromHTTPQueue (mID w) f)
                 = Inr (True, w', f')
             \<and> mState w' = DONE \<and> mPrevState w' = WAIT_HTTP_REQ
             \<and> \<not> mHaveAllData w'
             \<and> getDataSize (mFormattedImage w') = 0
             \<and> \<not> mHttpHasResource w'
             \<and> mHttpSemaphore f' = mHttpSemaphore f - 1
             \<and> w' = (failed_reply http_not_sat w)
                       \<lparr>mPrevState := WAIT_HTTP_REQ, mState := DONE, mHaveAllData := False,
                        mUrl := (if mFTType w = FTT_SERVER_BAKE then mUrl w else []),
                        mFormattedImage := map_option deleteData (mFormattedImage w),
                        mHttpBufferArray := None, mHttpReplySize := 0, mHttpReplyOffset := 0,
                        mHttpHasResource := False\<rparr>
             \<and> f' = (removeFromHTTPQueue (mID w) f)\<lparr>mHttpSemaphore := mHttpSemaphore f - 1\<rparr>))"
proof -
  let ?w1 = "failed_reply http_not_sat w" and ?f1 = "removeFromHTTPQueue (mID w) f"
  have nok: "\<not> status_ok (rStatus response)"
    by (simp add: resp http_not_sat_def status_ok_def)
  have a: "onCompleted should_retry response w f = Inr (?w1, ?f1)"
    using onCompleted_failure [OF st nl nok noretry, of f] by (simp add: resp)
  have w1: "mState ?w1 = WAIT_HTTP_REQ" "mLoaded ?w1" "mRequestedSize ?w1 < 0"
    "mGetStatus ?w1 = http_not_sat" "\<not> deleteRequested ?w1" "mCanUseNET ?w1 \<or> mCanUseHTTP ?w1"
    using st checks by simp_all
  have f1: "\<not> mQuitting ?f1" "\<not> mDebugPause ?f1" "0 < mHttpSemaphore ?f1"
    using checks held by simp_all
  have u: "mUrl ?w1 = mUrl w" by (simp add: failed_reply_def)
  have b: "doWork env ?w1 ?f1
             = Inr (False,
                    ?w1\<lparr>mPrevState := WAIT_HTTP_REQ, mState := DECODE_IMAGE,
                        mHaveAllData := True,
                        mUrl := (if mFTType w = FTT_SERVER_BAKE then mUrl w else []),
                        mLoadedDiscard := mDiscardLevel img, mHttpHasResource := False\<rparr>,
                    ?f1\<lparr>mHttpSemaphore := mHttpSemaphore f - 1\<rparr>)"
    if "mFormattedImage w = Some img" "mData img \<noteq> []" for img
    using doWork_not_sat_bytes [OF w1(1) w1(2) w1(3) w1(4) _ that(2)
            f1(1) w1(5) w1(6) f1(2) f1(3), of env] that(1)
    by (simp add: u)
  have c: "doWork env ?w1 ?f1
             = Inr (True,
                    ?w1\<lparr>mPrevState := WAIT_HTTP_REQ, mState := DONE, mHaveAllData := False,
                        mUrl := (if mFTType w = FTT_SERVER_BAKE then mUrl w else []),
                        mFormattedImage := map_option deleteData (mFormattedImage w),
                        mHttpBufferArray := None, mHttpReplySize := 0, mHttpReplyOffset := 0,
                        mHttpHasResource := False\<rparr>,
                    ?f1\<lparr>mHttpSemaphore := mHttpSemaphore f - 1\<rparr>)"
    if "getDataSize (mFormattedImage w) = 0"
    using doWork_not_sat_no_bytes [OF w1(1) w1(2) w1(3) w1(4) _
            f1(1) w1(5) w1(6) f1(2) f1(3), of env] that
    by (simp add: u)
  have e: "getDataSize (map_option deleteData x) = 0" for x
    by (cases x) (simp_all add: getDataSize_def deleteData_def)
  show ?thesis
  proof (intro conjI impI allI)
    show "onCompleted should_retry response w f = Inr (?w1, ?f1)" by (rule a)
  next
    fix img
    assume "mFormattedImage w = Some img \<and> mData img \<noteq> []"
    then have h: "mFormattedImage w = Some img" "mData img \<noteq> []" by simp_all
    from b [OF h] h(1) show "\<exists>w' f'.
               doWork env ?w1 ?f1 = Inr (False, w', f')
             \<and> mState w' = DECODE_IMAGE \<and> mPrevState w' = WAIT_HTTP_REQ
             \<and> mHaveAllData w'
             \<and> mFormattedImage w' = Some img
             \<and> mLoadedDiscard w' = mDiscardLevel img
             \<and> \<not> mHttpHasResource w'
             \<and> mHttpSemaphore f' = mHttpSemaphore f - 1
             \<and> w' = ?w1\<lparr>mPrevState := WAIT_HTTP_REQ, mState := DECODE_IMAGE,
                        mHaveAllData := True,
                        mUrl := (if mFTType w = FTT_SERVER_BAKE then mUrl w else []),
                        mLoadedDiscard := mDiscardLevel img, mHttpHasResource := False\<rparr>
             \<and> f' = ?f1\<lparr>mHttpSemaphore := mHttpSemaphore f - 1\<rparr>"
      by simp
  next
    assume h: "getDataSize (mFormattedImage w) = 0"
    from c [OF h] show "\<exists>w' f'.
               doWork env ?w1 ?f1 = Inr (True, w', f')
             \<and> mState w' = DONE \<and> mPrevState w' = WAIT_HTTP_REQ
             \<and> \<not> mHaveAllData w'
             \<and> getDataSize (mFormattedImage w') = 0
             \<and> \<not> mHttpHasResource w'
             \<and> mHttpSemaphore f' = mHttpSemaphore f - 1
             \<and> w' = ?w1\<lparr>mPrevState := WAIT_HTTP_REQ, mState := DONE, mHaveAllData := False,
                        mUrl := (if mFTType w = FTT_SERVER_BAKE then mUrl w else []),
                        mFormattedImage := map_option deleteData (mFormattedImage w),
                        mHttpBufferArray := None, mHttpReplySize := 0, mHttpReplyOffset := 0,
                        mHttpHasResource := False\<rparr>
             \<and> f' = ?f1\<lparr>mHttpSemaphore := mHttpSemaphore f - 1\<rparr>"
      by (simp add: e)
  qed
qed

lemma waiting_worker_fields:
  "mState (waiting_worker t u) = WAIT_HTTP_REQ" "\<not> mLoaded (waiting_worker t u)"
  "mFTType (waiting_worker t u) = t" "\<not> deleteRequested (waiting_worker t u)"
  "mCanUseNET (waiting_worker t u) = (u = [])" "mCanUseHTTP (waiting_worker t u)"
  "mID (waiting_worker t u) = 7" "mFormattedImage (waiting_worker t u) = None"
  "\<not> mHaveAllData (waiting_worker t u)" "mUrl (waiting_worker t u) = ''http://a/b''"
  by (simp_all add: waiting_worker_def LLTextureFetchWorker_def setDesiredDiscard_def Let_def
        addWork_def setState_def LLTextureFetch_new_def)

lemma holding_worker_fields:
  "mState holding_worker = WAIT_HTTP_REQ" "\<not> mLoaded holding_worker"
  "mFTType holding_worker = FTT_DEFAULT" "\<not> deleteRequested holding_worker"
  "mCanUseHTTP holding_worker" "mID holding_worker = 7"
  "mFormattedImage holding_worker = Some \<lparr>mData = [1, 2, 3], mDiscardLevel = 2\<rparr>"
  "\<not> mHaveAllData holding_worker"
  by (simp_all add: holding_worker_def waiting_worker_fields)

lemma response_fields:
  "rStatus not_found_response = http_not_found"
  "rStatus not_satisfiable_response = http_not_sat"
  by (simp_all add: not_found_response_def not_satisfiable_response_def http_not_found_def
        http_not_sat_def)


theorem http_416_have_all_data_witness:
  "onCompleted False not_satisfiable_response holding_worker one_active
     = Inr (failed_reply http_not_sat holding_worker, removeFromHTTPQueue 7 one_active)
   \<and> (\<exists>w' f'.
         doWork example_env (failed_reply http_not_sat holding_worker)
           (removeFromHTTPQueue 7 one_active)
           = Inr (False, w', f')
       \<and> mState w' = DECODE_IMAGE \<and> mHaveAllData w'
       \<and> mFormattedImage w' = Some \<lparr>mData = [1, 2, 3], mDiscardLevel = 2\<rparr>
       \<and> mLoadedDiscard w' = 2 \<and> mUrl w' = [] \<and> \<not> mHttpHasResource w'
       \<and> mHttpSemaphore f' = 0)
   \<and> (\<exists>w' f'.
         doWork example_env (failed_reply http_not_sat (waiting_worker FTT_DEFAULT ''http://a/b''))
           (removeFromHTTPQueue 7 one_active)
           = Inr (True, w', f')
       \<and> mState w' = DONE \<and> \<not> mHaveAllData w' \<and> mFormattedImage w' = None
       \<and> mUrl w' = [] \<and> \<not> mHttpHasResource w'
       \<and> mHttpSemaphore f' = 0)"
  using http_416_have_all_data
          [of holding_worker not_satisfiable_response False one_active example_env]
        http_416_have_all_data
          [of "waiting_worker FTT_DEFAULT ''http://a/b''" not_satisfiable_response False
              one_active example_env]
  by (simp add: waiting_worker_fields holding_worker_fields response_fields one_active_fields
        getDataSize_def failed_reply_def)

text \<open>
  Claim C5 as stated fails for a worker that holds no bytes: after the answer 416 and the
  next \<^verbatim>\<open>doWork\<close> it is in state \<open>DONE\<close> and \<open>mHaveAllData\<close> is false, as it was before.
\<close>

theorem not_satisfiable_without_bytes_unmarked:
  "getDataSize (mFormattedImage (waiting_worker FTT_DEFAULT ''http://a/b'')) = 0
   \<and> onCompleted False not_satisfiable_response (waiting_worker FTT_DEFAULT ''http://a/b'')
        one_active
       = Inr (failed_reply http_not_sat (waiting_worker FTT_DEFAULT ''http://a/b''),
              removeFromHTTPQueue 7 one_active)
   \<and> (\<exists>w' f'.
         doWork example_env (failed_reply http_not_sat (waiting_worker FTT_DEFAULT ''http://a/b''))
           (removeFromHTTPQueue 7 one_active)
           = Inr (True, w', f')
       \<and> mState w' = DONE \<and> \<not> mHaveAllData w')"
proof -
  let ?w = "waiting_worker FTT_DEFAULT ''http://a/b''"
  let ?w1 = "failed_reply http_not_sat ?w" and ?f1 = "removeFromHTTPQueue 7 one_active"
  have nb: "getDataSize (mFormattedImage ?w) = 0"
    by (simp add: waiting_worker_fields getDataSize_def)
  have nok: "\<not> status_ok (rStatus not_satisfiable_response)"
    by (simp add: response_fields http_not_sat_def status_ok_def)
  have a: "onCompleted False not_satisfiable_response ?w one_active = Inr (?w1, ?f1)"
    using onCompleted_failure [of ?w not_satisfiable_response False one_active] nok
    by (simp add: waiting_worker_fields response_fields)
  have d: "doWork example_env ?w1 ?f1
             = Inr (True,
                    ?w1\<lparr>mPrevState := WAIT_HTTP_REQ, mState := DONE, mHaveAllData := False,
                        mUrl := (if mFTType ?w1 = FTT_SERVER_BAKE then mUrl ?w1 else []),
                        mFormattedImage := map_option deleteData (mFormattedImage ?w1),
                        mHttpBufferArray := None, mHttpReplySize := 0, mHttpReplyOffset := 0,
                        mHttpHasResource := False\<rparr>,
                    ?f1\<lparr>mHttpSemaphore := mHttpSemaphore ?f1 - 1\<rparr>)"
    by (rule doWork_not_sat_no_bytes)
       (simp_all add: waiting_worker_fields one_active_fields getDataSize_def)
  show ?thesis
    unfolding a d using nb by simp
qed

section \<open>Resuming over HTTP\<close>

lemma the_request_resume:
  "0 < cur \<Longrightarrow>
   the_request env w cur
     = (if HttpRangeRequestsDisable env then RequestGet (mUrl w)
        else RequestGetByteRange (mUrl w) (cur - 1)
               (if mDesiredSize w > 20000000 then 0 else mDesiredSize w - cur + 1))"
  by (simp add: the_request_def Let_def HTTP_REQUESTS_RANGE_END_MAX_def)

lemma memcpy_two:
  "length buf = length xs + length ys \<Longrightarrow>
   memcpy (memcpy buf 0 xs) (length xs) ys = xs @ ys"
  by (simp add: memcpy_def)

lemma memcpy_one:
  "length buf = length ys \<Longrightarrow> memcpy buf 0 ys = ys"
  by (simp add: memcpy_def)

lemma doWork_enters_SEND_HTTP_REQ:
  assumes "mState w = SEND_HTTP_REQ" "\<not> mQuitting f" "\<not> deleteRequested w"
    "mCanUseHTTP w" "\<not> mDebugPause f"
  shows "doWork env w f = doWork_SEND_HTTP_REQ env w f"
  using assms by (auto simp: doWork_def)

lemma doWork_SEND_HTTP_REQ_resume:
  assumes http: "mCanUseHTTP w"
    and img: "mFormattedImage w = Some img" "mDiscardLevel img \<noteq> 0" "mData img \<noteq> []"
    and acc: "requestAccepted env (the_request env w (int (length (mData img))))"
  shows "doWork_SEND_HTTP_REQ env w f
           = Inr (False,
                  (setState WAIT_HTTP_REQ w)
                     \<lparr>mRequestedSize := mDesiredSize w - int (length (mData img)) + 1,
                      mRequestedDiscard := mDesiredDiscard w,
                      mRequestedOffset := int (length (mData img)) - 1,
                      mLoaded := False, mGetStatus := StatusDefault, mHttpActive := True\<rparr>,
                  addToHTTPQueue (mID w)
                    ((removeFromNetworkQueue w False f)
                       \<lparr>mHttpIssued := mHttpIssued f
                                          @ [the_request env w (int (length (mData img)))]\<rparr>))"
  using assms
  by (simp add: doWork_SEND_HTTP_REQ_def Let_def getDataSize_def doWork_WAIT_HTTP_REQ_def
        setState_def removeFromNetworkQueue_def)

lemma onCompleted_partial:
  assumes st: "mState w = WAIT_HTTP_REQ" and nl: "\<not> mLoaded w"
    and resp: "rStatus response = par_status" "rBody response = Some body" "body \<noteq> []"
    and nobuf: "mHttpBufferArray w = None"
    and len: "int (length body) \<le> mRequestedSize w"
  shows "\<exists>w'. onCompleted should_retry response w f = Inr (w', removeFromHTTPQueue (mID w) f)
           \<and> mState w' = WAIT_HTTP_REQ \<and> mLoaded w'
           \<and> mRequestedSize w' = int (length body)
           \<and> mHttpBufferArray w' = Some body
           \<and> mHttpReplyOffset w' = reply_offset response (mRequestedOffset w)
           \<and> mFormattedImage w' = mFormattedImage w
           \<and> deleteRequested w' = deleteRequested w
           \<and> mCanUseHTTP w' = mCanUseHTTP w \<and> mCanUseNET w' = mCanUseNET w
           \<and> mHttpHasResource w' = mHttpHasResource w"
proof -
  have ok: "status_ok (rStatus response)"
    by (simp add: resp par_status_def status_ok_def)
  obtain ro rl full where rng: "rRange response = (ro, rl, full)"
    by (cases "rRange response") auto
  show ?thesis
    using st nl resp nobuf len ok rng
    by (simp add: onCompleted_def callbackHttpGet_def Let_def reply_offset_def)
qed

lemma doWork_WAIT_HTTP_REQ_merge:
  assumes ld: "mLoaded w" and rs: "mRequestedSize w = int (length body)"
    and buf: "mHttpBufferArray w = Some body" "body \<noteq> []"
    and img: "mFormattedImage w = Some img" "mData img \<noteq> []"
    and ro: "mHttpReplyOffset w \<noteq> 0" "mHttpReplyOffset w \<le> length (mData img)"
            "length (mData img) \<le> mHttpReplyOffset w + length body"
    and alloc: "ALLOCATE_MEM env (mHttpReplyOffset w + length body) = Some buffer"
               "length buffer = mHttpReplyOffset w + length body"
    and upd: "updateData env (mData img @ drop (length (mData img) - mHttpReplyOffset w) body)
                = Some discard"
    and sem: "0 < mHttpSemaphore f"
  shows "\<exists>w'. doWork_WAIT_HTTP_REQ env w f
                 = Inr (False, w', f\<lparr>mHttpSemaphore := mHttpSemaphore f - 1\<rparr>)
           \<and> mState w' = DECODE_IMAGE
           \<and> mFormattedImage w'
               = Some \<lparr>mData = mData img @ drop (length (mData img) - mHttpReplyOffset w) body,
                       mDiscardLevel = discard\<rparr>
           \<and> \<not> mHttpHasResource w'"
proof -
  let ?held = "mData img" and ?r = "mHttpReplyOffset w"
  let ?src = "length ?held - ?r"
  have cur: "getDataSize (Some img) = int (length ?held)"
    by (simp add: getDataSize_def)
  have pos: "0 < length ?held" using img by simp
  have tk: "take (nat (int (length body) - (int (length ?held) - int ?r)))
              (drop (nat (int (length ?held) - int ?r)) body) = drop ?src body"
    using ro by (simp add: nat_diff_distrib')
  have lenbuf: "length buffer = length ?held + length (drop ?src body)"
    using alloc(2) ro by simp
  have merged: "memcpy (memcpy buffer 0 ?held) (length ?held) (drop ?src body)
                  = ?held @ drop ?src body"
    by (rule memcpy_two [OF lenbuf])
  have img_eq: "img\<lparr>mData := d, mDiscardLevel := discard\<rparr> = \<lparr>mData = d, mDiscardLevel = discard\<rparr>"
    for d by simp
  show ?thesis
  proof (cases "?r = length ?held")
    case True
    have src0: "length ?held - ?r = 0" using True by simp
    have merged0: "memcpy (memcpy buffer 0 ?held) (length ?held) body = ?held @ body"
      using merged src0 by simp
    have upd0: "updateData env (?held @ body) = Some discard"
      using upd src0 by simp
    have alloc0: "ALLOCATE_MEM env (nat (int (length ?held) + int (length body))) = Some buffer"
    proof -
      have "nat (int (length ?held) + int (length body)) = ?r + length body"
        using True by linarith
      then show ?thesis using alloc(1) by (simp only:)
    qed
    have mis: "\<not> (?r \<noteq> 0 \<and> int ?r \<noteq> int (length ?held))"
      using True by simp
    show ?thesis
      using ld rs buf(1) buf(2) img(1) sem pos mis alloc0 upd0
      by (auto simp: doWork_WAIT_HTTP_REQ_def Let_def release_and_return_eq cur merged0 src0
            setState_def img_eq)
  next
    case False
    have mis: "?r \<noteq> 0 \<and> int ?r \<noteq> int (length ?held)"
      using False ro(1) by simp
    have nb: "\<not> (int (length ?held) < int ?r \<or> int ?r + int (length body) < int (length ?held))"
      using ro by simp
    have alloc1: "ALLOCATE_MEM env
                    (nat (int (length ?held) + int (length body) - (int (length ?held) - int ?r)))
                    = Some buffer"
    proof -
      have "nat (int (length ?held) + int (length body) - (int (length ?held) - int ?r))
              = ?r + length body"
        by linarith
      then show ?thesis using alloc(1) by (simp only:)
    qed
    show ?thesis
      using ld rs buf(1) buf(2) img(1) sem pos mis nb alloc1 upd
      by (auto simp: doWork_WAIT_HTTP_REQ_def Let_def release_and_return_eq cur merged tk
            setState_def img_eq simp del: of_nat_diff)
  qed
qed

lemma doWork_WAIT_HTTP_REQ_beyond:
  assumes ld: "mLoaded w" and rs: "mRequestedSize w = int (length body)"
    and buf: "mHttpBufferArray w = Some body" "body \<noteq> []"
    and ro: "mHttpReplyOffset w \<noteq> 0"
            "int (mHttpReplyOffset w) > getDataSize (mFormattedImage w)
             \<or> getDataSize (mFormattedImage w) > int (mHttpReplyOffset w) + int (length body)"
    and sem: "0 < mHttpSemaphore f"
  shows "doWork_WAIT_HTTP_REQ env w f
           = Inr (True, (setState DONE w)\<lparr>mHttpHasResource := False\<rparr>,
                  f\<lparr>mHttpSemaphore := mHttpSemaphore f - 1\<rparr>)"
  using assms
  by (auto simp: doWork_WAIT_HTTP_REQ_def Let_def release_and_return_eq)

lemma queue_fields [simp]:
  "mQuitting (addToHTTPQueue t f) = mQuitting f"
  "mDebugPause (addToHTTPQueue t f) = mDebugPause f"
  "mHttpSemaphore (addToHTTPQueue t f) = mHttpSemaphore f"
  "mHttpIssued (addToHTTPQueue t f) = mHttpIssued f"
  "mQuitting (removeFromNetworkQueue w False f) = mQuitting f"
  "mDebugPause (removeFromNetworkQueue w False f) = mDebugPause f"
  "mHttpSemaphore (removeFromNetworkQueue w False f) = mHttpSemaphore f"
  "mHttpIssued (removeFromNetworkQueue w False f) = mHttpIssued f"
  by (simp_all add: addToHTTPQueue_def removeFromNetworkQueue_def)

text \<open>
  Claim C6, amended. A worker in \<open>SEND_HTTP_REQ\<close> that may use HTTP holds \<open>cur > 0\<close>
  bytes of an image whose discard level is not 0, and the HTTP library accepts its
  request. Then:

  \<^item> the request is a plain GET when range requests are disabled; otherwise a byte-range
    GET at offset \<open>cur - 1\<close>, of length \<open>desired - cur + 1\<close> when the desired size is at most
    20000000 and of length 0 when it is larger;
  \<^item> \<^verbatim>\<open>doWork\<close> returns false with the worker in \<open>WAIT_HTTP_REQ\<close>, its requested offset
    \<open>cur - 1\<close> and its requested size \<open>desired - cur + 1\<close>;
  \<^item> a 206 answer of at most the requested length whose reply offset \<open>ro\<close> is not 0 and
    satisfies \<open>ro \<le> cur \<le> ro + length body\<close> is merged by the next \<^verbatim>\<open>doWork\<close> into the
    held bytes followed by the body without its first \<open>cur - ro\<close> bytes (allocation and the
    parsing of the header succeeding); the worker goes to \<open>DECODE_IMAGE\<close> and the resource
    is released; when \<open>ro = cur - 1\<close> and the body has the requested length, these are
    exactly \<open>desired\<close> bytes;
  \<^item> a 206 answer whose reply offset is not 0 and lies after the held bytes, or whose
    body ends before them, sends the worker to \<open>DONE\<close>; \<^verbatim>\<open>doWork\<close> returns true and the
    resource is released.
\<close>

theorem http_resume_request_and_merge:
  fixes w :: worker and f :: LLTextureFetch and body :: "byte list"
    and response :: HttpResponse
  assumes st: "mState w = SEND_HTTP_REQ"
    and checks: "\<not> mQuitting f" "\<not> deleteRequested w" "mCanUseHTTP w" "\<not> mDebugPause f"
    and img: "mFormattedImage w = Some img" "mDiscardLevel img \<noteq> 0" "mData img \<noteq> []"
    and nobuf: "mHttpBufferArray w = None"
    and sem: "0 < mHttpSemaphore f"
    and acc: "requestAccepted env (the_request env w (int (length (mData img))))"
  defines "cur \<equiv> int (length (mData img))"
  defines "w1 \<equiv> (setState WAIT_HTTP_REQ w)
                   \<lparr>mRequestedSize := mDesiredSize w - cur + 1,
                    mRequestedDiscard := mDesiredDiscard w,
                    mRequestedOffset := cur - 1,
                    mLoaded := False, mGetStatus := StatusDefault, mHttpActive := True\<rparr>"
  defines "f1 \<equiv> addToHTTPQueue (mID w)
                   ((removeFromNetworkQueue w False f)
                      \<lparr>mHttpIssued := mHttpIssued f @ [the_request env w cur]\<rparr>)"
  defines "ro \<equiv> reply_offset response (cur - 1)"
  defines "merged \<equiv> mData img @ drop (length (mData img) - ro) body"
  shows "the_request env w cur
           = (if HttpRangeRequestsDisable env then RequestGet (mUrl w)
              else RequestGetByteRange (mUrl w) (cur - 1)
                     (if mDesiredSize w > 20000000 then 0 else mDesiredSize w - cur + 1))
       \<and> doWork env w f = Inr (False, w1, f1)
       \<and> (rStatus response = par_status \<and> rBody response = Some body \<and> body \<noteq> []
            \<and> int (length body) \<le> mDesiredSize w - cur + 1
            \<and> ro \<noteq> 0 \<and> int ro \<le> cur \<and> cur \<le> int ro + int (length body)
            \<and> ALLOCATE_MEM env (ro + length body) = Some buffer
            \<and> length buffer = ro + length body
            \<and> updateData env merged = Some discard
          \<longrightarrow> (\<exists>w2 f2 w3 f3.
                 onCompleted should_retry response w1 f1 = Inr (w2, f2)
               \<and> doWork env w2 f2 = Inr (False, w3, f3)
               \<and> mState w3 = DECODE_IMAGE
               \<and> mFormattedImage w3 = Some \<lparr>mData = merged, mDiscardLevel = discard\<rparr>
               \<and> \<not> mHttpHasResource w3
               \<and> mHttpSemaphore f3 = mHttpSemaphore f - 1))
       \<and> (body \<noteq> [] \<and> int ro = cur - 1 \<and> int (length body) = mDesiredSize w - cur + 1
          \<longrightarrow> int (length merged) = mDesiredSize w)
       \<and> (rStatus response = par_status \<and> rBody response = Some body \<and> body \<noteq> []
            \<and> int (length body) \<le> mDesiredSize w - cur + 1
            \<and> ro \<noteq> 0 \<and> (cur < int ro \<or> int ro + int (length body) < cur)
          \<longrightarrow> (\<exists>w2 f2 w3 f3.
                 onCompleted should_retry response w1 f1 = Inr (w2, f2)
               \<and> doWork env w2 f2 = Inr (True, w3, f3)
               \<and> mState w3 = DONE
               \<and> \<not> mHttpHasResource w3
               \<and> mHttpSemaphore f3 = mHttpSemaphore f - 1))"
proof -
  have pos: "0 < cur" using img(3) by (simp add: cur_def)
  have A: "the_request env w cur
           = (if HttpRangeRequestsDisable env then RequestGet (mUrl w)
              else RequestGetByteRange (mUrl w) (cur - 1)
                     (if mDesiredSize w > 20000000 then 0 else mDesiredSize w - cur + 1))"
    by (rule the_request_resume [OF pos])
  have B: "doWork env w f = Inr (False, w1, f1)"
    unfolding doWork_enters_SEND_HTTP_REQ [OF st checks] w1_def f1_def cur_def
    by (rule doWork_SEND_HTTP_REQ_resume [OF checks(3) img acc])
  have w1f: "mState w1 = WAIT_HTTP_REQ" "\<not> mLoaded w1" "mHttpBufferArray w1 = None"
    "mRequestedSize w1 = mDesiredSize w - cur + 1" "mRequestedOffset w1 = cur - 1"
    "mFormattedImage w1 = Some img" "\<not> deleteRequested w1" "mCanUseHTTP w1" "mID w1 = mID w"
    using nobuf img(1) checks by (simp_all add: w1_def setState_def)
  let ?f2 = "removeFromHTTPQueue (mID w1) f1"
  have f1f: "\<not> mQuitting f1" "\<not> mDebugPause f1" "mHttpSemaphore f1 = mHttpSemaphore f"
    using checks by (simp_all add: f1_def)
  have f2f: "\<not> mQuitting ?f2" "\<not> mDebugPause ?f2" "mHttpSemaphore ?f2 = mHttpSemaphore f"
    using f1f by simp_all
  have cb: "\<exists>w2. onCompleted should_retry response w1 f1 = Inr (w2, ?f2)
              \<and> doWork env w2 ?f2 = doWork_WAIT_HTTP_REQ env w2 ?f2
              \<and> mLoaded w2 \<and> mRequestedSize w2 = int (length body)
              \<and> mHttpBufferArray w2 = Some body \<and> mHttpReplyOffset w2 = ro
              \<and> mFormattedImage w2 = Some img"
    if r: "rStatus response = par_status" "rBody response = Some body" "body \<noteq> []"
          "int (length body) \<le> mDesiredSize w - cur + 1"
  proof -
    from onCompleted_partial [OF w1f(1) w1f(2) r(1) r(2) r(3) w1f(3), of should_retry f1] r(4)
    obtain w2 where w2: "onCompleted should_retry response w1 f1 = Inr (w2, ?f2)"
      "mState w2 = WAIT_HTTP_REQ" "mLoaded w2" "mRequestedSize w2 = int (length body)"
      "mHttpBufferArray w2 = Some body"
      "mHttpReplyOffset w2 = reply_offset response (mRequestedOffset w1)"
      "mFormattedImage w2 = mFormattedImage w1" "deleteRequested w2 = deleteRequested w1"
      "mCanUseHTTP w2 = mCanUseHTTP w1"
      by (auto simp: w1f(4))
    have "doWork env w2 ?f2 = doWork_WAIT_HTTP_REQ env w2 ?f2"
      by (rule doWork_enters_WAIT_HTTP_REQ) (simp_all add: w2 w1f f1f)
    with w2 show ?thesis by (auto simp: w1f ro_def)
  qed
  have C: "\<exists>w2 f2 w3 f3.
                 onCompleted should_retry response w1 f1 = Inr (w2, f2)
               \<and> doWork env w2 f2 = Inr (False, w3, f3)
               \<and> mState w3 = DECODE_IMAGE
               \<and> mFormattedImage w3 = Some \<lparr>mData = merged, mDiscardLevel = discard\<rparr>
               \<and> \<not> mHttpHasResource w3
               \<and> mHttpSemaphore f3 = mHttpSemaphore f - 1"
    if r: "rStatus response = par_status" "rBody response = Some body" "body \<noteq> []"
          "int (length body) \<le> mDesiredSize w - cur + 1"
      and o: "ro \<noteq> 0" "int ro \<le> cur" "cur \<le> int ro + int (length body)"
      and al: "ALLOCATE_MEM env (ro + length body) = Some buffer"
              "length buffer = ro + length body"
      and up: "updateData env merged = Some discard"
  proof -
    from cb [OF r] obtain w2 where w2:
      "onCompleted should_retry response w1 f1 = Inr (w2, ?f2)"
      "doWork env w2 ?f2 = doWork_WAIT_HTTP_REQ env w2 ?f2"
      "mLoaded w2" "mRequestedSize w2 = int (length body)"
      "mHttpBufferArray w2 = Some body" "mHttpReplyOffset w2 = ro"
      "mFormattedImage w2 = Some img"
      by blast
    have o': "mHttpReplyOffset w2 \<noteq> 0" "mHttpReplyOffset w2 \<le> length (mData img)"
      "length (mData img) \<le> mHttpReplyOffset w2 + length body"
      using o by (simp_all add: w2(6) cur_def)
    have sem2: "0 < mHttpSemaphore ?f2" using sem f2f(3) by simp
    from doWork_WAIT_HTTP_REQ_merge
           [OF w2(3) w2(4) w2(5) r(3) w2(7) img(3) o' al [folded w2(6)]
               up [unfolded merged_def, folded w2(6)] sem2, of ]
    obtain w3 where w3:
      "doWork_WAIT_HTTP_REQ env w2 ?f2
         = Inr (False, w3, ?f2\<lparr>mHttpSemaphore := mHttpSemaphore ?f2 - 1\<rparr>)"
      "mState w3 = DECODE_IMAGE"
      "mFormattedImage w3
         = Some \<lparr>mData = mData img @ drop (length (mData img) - mHttpReplyOffset w2) body,
                 mDiscardLevel = discard\<rparr>"
      "\<not> mHttpHasResource w3"
      by blast
    show ?thesis
      apply (rule exI [of _ w2], rule exI [of _ ?f2], rule exI [of _ w3],
             rule exI [of _ "?f2\<lparr>mHttpSemaphore := mHttpSemaphore ?f2 - 1\<rparr>"])
      using w2(1) w2(2) w3 f2f(3)
      by (simp add: merged_def w2(6))
  qed
  have D: "body \<noteq> [] \<and> int ro = cur - 1 \<and> int (length body) = mDesiredSize w - cur + 1
          \<longrightarrow> int (length merged) = mDesiredSize w"
  proof (intro impI, elim conjE)
    assume a: "body \<noteq> []" "int ro = cur - 1" "int (length body) = mDesiredSize w - cur + 1"
    have b: "1 \<le> length body" using a(1) by (cases body) simp_all
    have "int (length (mData img)) = int ro + 1" using a(2) by (simp add: cur_def)
    then have "length (mData img) = ro + 1" by linarith
    then have "length (mData img) - ro = 1" by simp
    then have "length merged = length (mData img) + (length body - 1)"
      by (simp add: merged_def)
    then have "int (length merged) = cur + int (length body) - 1"
      using b by (simp add: cur_def)
    then show "int (length merged) = mDesiredSize w" using a(3) by simp
  qed
  have E: "\<exists>w2 f2 w3 f3.
                 onCompleted should_retry response w1 f1 = Inr (w2, f2)
               \<and> doWork env w2 f2 = Inr (True, w3, f3)
               \<and> mState w3 = DONE
               \<and> \<not> mHttpHasResource w3
               \<and> mHttpSemaphore f3 = mHttpSemaphore f - 1"
    if r: "rStatus response = par_status" "rBody response = Some body" "body \<noteq> []"
          "int (length body) \<le> mDesiredSize w - cur + 1"
      and o: "ro \<noteq> 0" "cur < int ro \<or> int ro + int (length body) < cur"
  proof -
    from cb [OF r] obtain w2 where w2:
      "onCompleted should_retry response w1 f1 = Inr (w2, ?f2)"
      "doWork env w2 ?f2 = doWork_WAIT_HTTP_REQ env w2 ?f2"
      "mLoaded w2" "mRequestedSize w2 = int (length body)"
      "mHttpBufferArray w2 = Some body" "mHttpReplyOffset w2 = ro"
      "mFormattedImage w2 = Some img"
      by blast
    have o': "mHttpReplyOffset w2 \<noteq> 0"
      "int (mHttpReplyOffset w2) > getDataSize (mFormattedImage w2)
       \<or> getDataSize (mFormattedImage w2) > int (mHttpReplyOffset w2) + int (length body)"
      using o by (simp_all add: w2(6) w2(7) getDataSize_def cur_def)
    have sem2: "0 < mHttpSemaphore ?f2" using sem f2f(3) by simp
    have "doWork env w2 ?f2
            = Inr (True, (setState DONE w2)\<lparr>mHttpHasResource := False\<rparr>,
                   ?f2\<lparr>mHttpSemaphore := mHttpSemaphore ?f2 - 1\<rparr>)"
      unfolding w2(2)
      by (rule doWork_WAIT_HTTP_REQ_beyond [OF w2(3) w2(4) w2(5) r(3) o' sem2])
    then show ?thesis
      using w2(1) f2f(3) by (auto simp: setState_def)
  qed
  from A B C D E show ?thesis by blast
qed

lemma resuming_worker_fields:
  "mState resuming_worker = SEND_HTTP_REQ" "\<not> deleteRequested resuming_worker"
  "mCanUseHTTP resuming_worker" "mHttpBufferArray resuming_worker = None"
  "mFormattedImage resuming_worker = Some \<lparr>mData = [1, 2, 3], mDiscardLevel = 2\<rparr>"
  "mDesiredSize resuming_worker = 4096" "mDesiredDiscard resuming_worker = 1"
  "mUrl resuming_worker = ''http://a/b''" "mID resuming_worker = 7"
  by (simp_all add: resuming_worker_def LLTextureFetchWorker_def setDesiredDiscard_def Let_def
        addWork_def setState_def LLTextureFetch_new_def)

lemma big_resuming_worker_fields:
  "mState big_resuming_worker = SEND_HTTP_REQ" "\<not> deleteRequested big_resuming_worker"
  "mCanUseHTTP big_resuming_worker" "mHttpBufferArray big_resuming_worker = None"
  "mFormattedImage big_resuming_worker = Some \<lparr>mData = [1, 2, 3], mDiscardLevel = 2\<rparr>"
  "mDesiredSize big_resuming_worker = 33554432" "mDesiredDiscard big_resuming_worker = 1"
  "mUrl big_resuming_worker = ''http://a/b''" "mID big_resuming_worker = 7"
  by (simp_all add: big_resuming_worker_def resuming_worker_fields)

lemma example_env_http:
  "\<not> HttpRangeRequestsDisable example_env" "requestAccepted example_env r"
  "ALLOCATE_MEM example_env n = Some (replicate n 0)" "updateData example_env bs = Some 1"
  by (simp_all add: example_env_def)

lemma partial_response_fields:
  "rStatus partial_response = par_status" "rBody partial_response = Some (3 # replicate 4093 9)"
  "reply_offset partial_response 2 = 2"
  "rStatus far_response = par_status" "rBody far_response = Some (replicate 4094 9)"
  "reply_offset far_response 2 = 5"
  by (simp_all add: partial_response_def far_response_def par_status_def reply_offset_def)

lemma one_active_issued: "mHttpIssued one_active = []"
  by (simp add: one_active_def LLTextureFetch_new_def)

theorem http_resume_request_and_merge_witness:
  "the_request example_env resuming_worker 3 = RequestGetByteRange ''http://a/b'' 2 4094
   \<and> doWork example_env resuming_worker one_active
       = Inr (False,
              (setState WAIT_HTTP_REQ resuming_worker)
                 \<lparr>mRequestedSize := 4094, mRequestedDiscard := 1, mRequestedOffset := 2,
                  mLoaded := False, mGetStatus := StatusDefault, mHttpActive := True\<rparr>,
              addToHTTPQueue 7
                ((removeFromNetworkQueue resuming_worker False one_active)
                   \<lparr>mHttpIssued := [RequestGetByteRange ''http://a/b'' 2 4094]\<rparr>))
   \<and> (\<exists>w2 f2 w3 f3.
         onCompleted False partial_response
           ((setState WAIT_HTTP_REQ resuming_worker)
              \<lparr>mRequestedSize := 4094, mRequestedDiscard := 1, mRequestedOffset := 2,
               mLoaded := False, mGetStatus := StatusDefault, mHttpActive := True\<rparr>)
           (addToHTTPQueue 7
              ((removeFromNetworkQueue resuming_worker False one_active)
                 \<lparr>mHttpIssued := [RequestGetByteRange ''http://a/b'' 2 4094]\<rparr>))
           = Inr (w2, f2)
       \<and> doWork example_env w2 f2 = Inr (False, w3, f3)
       \<and> mState w3 = DECODE_IMAGE
       \<and> mFormattedImage w3
           = Some \<lparr>mData = [1, 2, 3] @ replicate 4093 9, mDiscardLevel = 1\<rparr>
       \<and> \<not> mHttpHasResource w3
       \<and> mHttpSemaphore f3 = 0)
   \<and> int (length ([1, 2, 3] @ replicate 4093 (9 :: byte))) = mDesiredSize resuming_worker
   \<and> (\<exists>w2 f2 w3 f3.
         onCompleted False far_response
           ((setState WAIT_HTTP_REQ resuming_worker)
              \<lparr>mRequestedSize := 4094, mRequestedDiscard := 1, mRequestedOffset := 2,
               mLoaded := False, mGetStatus := StatusDefault, mHttpActive := True\<rparr>)
           (addToHTTPQueue 7
              ((removeFromNetworkQueue resuming_worker False one_active)
                 \<lparr>mHttpIssued := [RequestGetByteRange ''http://a/b'' 2 4094]\<rparr>))
           = Inr (w2, f2)
       \<and> doWork example_env w2 f2 = Inr (True, w3, f3)
       \<and> mState w3 = DONE
       \<and> \<not> mHttpHasResource w3
       \<and> mHttpSemaphore f3 = 0)"
proof -
  have r: "the_request example_env resuming_worker 3 = RequestGetByteRange ''http://a/b'' 2 4094"
    by (simp add: the_request_resume resuming_worker_fields example_env_http)
  show ?thesis
  using http_resume_request_and_merge
          [where w = resuming_worker and f = one_active and env = example_env
             and img = "\<lparr>mData = [1, 2, 3], mDiscardLevel = 2\<rparr>"
             and response = partial_response and body = "3 # replicate 4093 9"
             and buffer = "replicate 4096 0" and discard = 1 and should_retry = False]
        http_resume_request_and_merge
          [where w = resuming_worker and f = one_active and env = example_env
             and img = "\<lparr>mData = [1, 2, 3], mDiscardLevel = 2\<rparr>"
             and response = far_response and body = "replicate 4094 9"
             and buffer = "replicate 4096 0" and discard = 1 and should_retry = False]
  by (simp add: resuming_worker_fields one_active_fields one_active_issued example_env_http
        partial_response_fields r)
qed

text \<open>
  Claim C6 as stated fails for a worker that wants more than 20000000 bytes: it holds
  3 bytes and wants 33554432, range requests are enabled, and the request it issues is
  a byte-range GET at offset 2 of length 0, not of length 33554432 - 3 + 1 = 33554430
  (which is what the worker records as its requested size).
\<close>

theorem resume_request_past_range_end:
  "mState big_resuming_worker = SEND_HTTP_REQ
   \<and> getDataSize (mFormattedImage big_resuming_worker) = 3
   \<and> mDesiredSize big_resuming_worker = 33554432
   \<and> \<not> HttpRangeRequestsDisable example_env
   \<and> doWork example_env big_resuming_worker one_active
       = Inr (False,
              (setState WAIT_HTTP_REQ big_resuming_worker)
                 \<lparr>mRequestedSize := 33554430, mRequestedDiscard := 1, mRequestedOffset := 2,
                  mLoaded := False, mGetStatus := StatusDefault, mHttpActive := True\<rparr>,
              addToHTTPQueue 7
                ((removeFromNetworkQueue big_resuming_worker False one_active)
                   \<lparr>mHttpIssued := [RequestGetByteRange ''http://a/b'' 2 0]\<rparr>))"
proof -
  have r: "the_request example_env big_resuming_worker 3 = RequestGetByteRange ''http://a/b'' 2 0"
    by (simp add: the_request_resume big_resuming_worker_fields example_env_http)
  have d: "doWork example_env big_resuming_worker one_active
             = doWork_SEND_HTTP_REQ example_env big_resuming_worker one_active"
    by (rule doWork_enters_SEND_HTTP_REQ)
       (simp_all add: big_resuming_worker_fields one_active_fields)
  have s: "doWork_SEND_HTTP_REQ example_env big_resuming_worker one_active
             = Inr (False,
              (setState WAIT_HTTP_REQ big_resuming_worker)
                 \<lparr>mRequestedSize := 33554430, mRequestedDiscard := 1, mRequestedOffset := 2,
                  mLoaded := False, mGetStatus := StatusDefault, mHttpActive := True\<rparr>,
              addToHTTPQueue 7
                ((removeFromNetworkQueue big_resuming_worker False one_active)
                   \<lparr>mHttpIssued := [RequestGetByteRange ''http://a/b'' 2 0]\<rparr>))"
    using doWork_SEND_HTTP_REQ_resume
            [of big_resuming_worker "\<lparr>mData = [1, 2, 3], mDiscardLevel = 2\<rparr>" example_env
                one_active]
    by (simp add: big_resuming_worker_fields example_env_http r one_active_issued)
  show ?thesis
    unfolding d s
    by (simp add: big_resuming_worker_fields example_env_http getDataSize_def)
qed

lemma doWork_WAIT_HTTP_REQ_append:
  assumes ld: "mLoaded w" and rs: "mRequestedSize w = int (length body)"
    and buf: "mHttpBufferArray w = Some body" "body \<noteq> []"
    and img: "mFormattedImage w = Some img" "mData img \<noteq> []"
    and ro: "mHttpReplyOffset w = 0"
    and alloc: "ALLOCATE_MEM env (length (mData img) + length body) = Some buffer"
               "length buffer = length (mData img) + length body"
    and upd: "updateData env (mData img @ body) = Some discard"
    and sem: "0 < mHttpSemaphore f"
  shows "\<exists>w'. doWork_WAIT_HTTP_REQ env w f
                 = Inr (False, w', f\<lparr>mHttpSemaphore := mHttpSemaphore f - 1\<rparr>)
           \<and> mState w' = DECODE_IMAGE
           \<and> mFormattedImage w' = Some \<lparr>mData = mData img @ body, mDiscardLevel = discard\<rparr>
           \<and> \<not> mHttpHasResource w'"
proof -
  let ?held = "mData img"
  have cur: "getDataSize (Some img) = int (length ?held)"
    by (simp add: getDataSize_def)
  have pos: "0 < length ?held" using img by simp
  have merged: "memcpy (memcpy buffer 0 ?held) (length ?held) body = ?held @ body"
    by (rule memcpy_two [OF alloc(2)])
  have alloc0: "ALLOCATE_MEM env (nat (int (length ?held) + int (length body))) = Some buffer"
  proof -
    have "nat (int (length ?held) + int (length body)) = length ?held + length body"
      by linarith
    then show ?thesis using alloc(1) by (simp only:)
  qed
  have img_eq: "img\<lparr>mData := d, mDiscardLevel := discard\<rparr> = \<lparr>mData = d, mDiscardLevel = discard\<rparr>"
    for d by simp
  show ?thesis
    using ld rs buf(1) buf(2) img(1) sem pos ro alloc0 upd
    by (auto simp: doWork_WAIT_HTTP_REQ_def Let_def release_and_return_eq cur merged
          setState_def img_eq)
qed

lemma http_resume_reply_from_start:
  assumes st: "mState w = SEND_HTTP_REQ"
    and checks: "\<not> mQuitting f" "\<not> deleteRequested w" "mCanUseHTTP w" "\<not> mDebugPause f"
    and img: "mFormattedImage w = Some img" "mDiscardLevel img \<noteq> 0" "mData img \<noteq> []"
    and nobuf: "mHttpBufferArray w = None"
    and sem: "0 < mHttpSemaphore f"
    and acc: "requestAccepted env (the_request env w (int (length (mData img))))"
    and r: "rStatus response = par_status" "rBody response = Some body" "body \<noteq> []"
           "int (length body) \<le> mDesiredSize w - int (length (mData img)) + 1"
    and o: "reply_offset response (int (length (mData img)) - 1) = 0"
    and al: "ALLOCATE_MEM env (length (mData img) + length body) = Some buffer"
            "length buffer = length (mData img) + length body"
    and up: "updateData env (mData img @ body) = Some discard"
  shows "\<exists>w1 f1 w2 f2 w3 f3.
           doWork env w f = Inr (False, w1, f1)
         \<and> mHttpIssued f1 = mHttpIssued f @ [the_request env w (int (length (mData img)))]
         \<and> onCompleted should_retry response w1 f1 = Inr (w2, f2)
         \<and> doWork env w2 f2 = Inr (False, w3, f3)
         \<and> mState w3 = DECODE_IMAGE
         \<and> mFormattedImage w3 = Some \<lparr>mData = mData img @ body, mDiscardLevel = discard\<rparr>"
proof -
  define cur where "cur = int (length (mData img))"
  define w1 where "w1 = (setState WAIT_HTTP_REQ w)
                   \<lparr>mRequestedSize := mDesiredSize w - cur + 1,
                    mRequestedDiscard := mDesiredDiscard w,
                    mRequestedOffset := cur - 1,
                    mLoaded := False, mGetStatus := StatusDefault, mHttpActive := True\<rparr>"
  define f1 where "f1 = addToHTTPQueue (mID w)
                   ((removeFromNetworkQueue w False f)
                      \<lparr>mHttpIssued := mHttpIssued f @ [the_request env w cur]\<rparr>)"
  have B: "doWork env w f = Inr (False, w1, f1)"
    unfolding doWork_enters_SEND_HTTP_REQ [OF st checks] w1_def f1_def cur_def
    by (rule doWork_SEND_HTTP_REQ_resume [OF checks(3) img acc])
  have w1f: "mState w1 = WAIT_HTTP_REQ" "\<not> mLoaded w1" "mHttpBufferArray w1 = None"
    "mRequestedSize w1 = mDesiredSize w - cur + 1" "mRequestedOffset w1 = cur - 1"
    "mFormattedImage w1 = Some img" "\<not> deleteRequested w1" "mCanUseHTTP w1" "mID w1 = mID w"
    using nobuf img(1) checks by (simp_all add: w1_def setState_def)
  let ?f2 = "removeFromHTTPQueue (mID w1) f1"
  have f1f: "\<not> mQuitting f1" "\<not> mDebugPause f1" "mHttpSemaphore f1 = mHttpSemaphore f"
    "mHttpIssued f1 = mHttpIssued f @ [the_request env w cur]"
    using checks by (simp_all add: f1_def)
  from onCompleted_partial [OF w1f(1) w1f(2) r(1) r(2) r(3) w1f(3), of should_retry f1] r(4)
  obtain w2 where w2: "onCompleted should_retry response w1 f1 = Inr (w2, ?f2)"
    "mState w2 = WAIT_HTTP_REQ" "mLoaded w2" "mRequestedSize w2 = int (length body)"
    "mHttpBufferArray w2 = Some body"
    "mHttpReplyOffset w2 = reply_offset response (mRequestedOffset w1)"
    "mFormattedImage w2 = mFormattedImage w1" "deleteRequested w2 = deleteRequested w1"
    "mCanUseHTTP w2 = mCanUseHTTP w1"
    by (auto simp: w1f(4) cur_def)
  have d2: "doWork env w2 ?f2 = doWork_WAIT_HTTP_REQ env w2 ?f2"
    by (rule doWork_enters_WAIT_HTTP_REQ) (simp_all add: w2 w1f f1f)
  have o2: "mHttpReplyOffset w2 = 0" using o by (simp add: w2(6) w1f(5) cur_def)
  have i2: "mFormattedImage w2 = Some img" by (simp add: w2(7) w1f(6))
  have sem2: "0 < mHttpSemaphore ?f2" using sem f1f(3) by simp
  from doWork_WAIT_HTTP_REQ_append [OF w2(3) w2(4) w2(5) r(3) i2 img(3) o2 al up sem2]
  obtain w3 where w3:
    "doWork_WAIT_HTTP_REQ env w2 ?f2
       = Inr (False, w3, ?f2\<lparr>mHttpSemaphore := mHttpSemaphore ?f2 - 1\<rparr>)"
    "mState w3 = DECODE_IMAGE"
    "mFormattedImage w3 = Some \<lparr>mData = mData img @ body, mDiscardLevel = discard\<rparr>"
    by blast
  show ?thesis
    apply (rule exI [of _ w1], rule exI [of _ f1], rule exI [of _ w2], rule exI [of _ ?f2],
           rule exI [of _ w3],
           rule exI [of _ "?f2\<lparr>mHttpSemaphore := mHttpSemaphore ?f2 - 1\<rparr>"])
    using B w2(1) d2 w3 f1f(4)
    by (simp add: cur_def)
qed

lemma single_byte_worker_fields:
  "mState single_byte_worker = SEND_HTTP_REQ" "\<not> deleteRequested single_byte_worker"
  "mCanUseHTTP single_byte_worker" "mHttpBufferArray single_byte_worker = None"
  "mFormattedImage single_byte_worker = Some \<lparr>mData = [1], mDiscardLevel = 2\<rparr>"
  "mDesiredSize single_byte_worker = 4096" "mUrl single_byte_worker = ''http://a/b''"
  by (simp_all add: single_byte_worker_def resuming_worker_fields)

lemma from_start_response_fields:
  "rStatus from_start_response = par_status"
  "rBody from_start_response = Some (1 # replicate 4095 9)"
  "reply_offset from_start_response 0 = 0"
  by (simp_all add: from_start_response_def par_status_def reply_offset_def)

text \<open>
  A worker that holds exactly one byte asks for the range from offset 0, of 4096 bytes.
  The reply offset of the answer is 0, which the merge takes for "no offset": it appends
  the whole body to the held byte. The image then has 4097 bytes for a desired size of
  4096, and its first byte is there twice.
\<close>

lemma single_held_byte_is_doubled:
  "mDesiredSize single_byte_worker = 4096
   \<and> (\<exists>w1 f1 w2 f2 w3 f3.
         doWork example_env single_byte_worker one_active = Inr (False, w1, f1)
       \<and> mHttpIssued f1 = [RequestGetByteRange ''http://a/b'' 0 4096]
       \<and> onCompleted False from_start_response w1 f1 = Inr (w2, f2)
       \<and> doWork example_env w2 f2 = Inr (False, w3, f3)
       \<and> mState w3 = DECODE_IMAGE
       \<and> mFormattedImage w3
           = Some \<lparr>mData = 1 # 1 # replicate 4095 9, mDiscardLevel = 1\<rparr>)
   \<and> length (1 # 1 # replicate 4095 (9 :: byte)) = 4097"
proof -
  have r: "the_request example_env single_byte_worker 1 = RequestGetByteRange ''http://a/b'' 0 4096"
    by (simp add: the_request_resume single_byte_worker_fields example_env_http)
  show ?thesis
    using http_resume_reply_from_start
            [where w = single_byte_worker and f = one_active and env = example_env
               and img = "\<lparr>mData = [1], mDiscardLevel = 2\<rparr>"
               and response = from_start_response and body = "1 # replicate 4095 9"
               and buffer = "replicate 4097 0" and discard = 1 and should_retry = False]
    by (simp add: single_byte_worker_fields one_active_fields one_active_issued example_env_http
          from_start_response_fields r)
qed

section \<open>Requests for a texture that already has a worker\<close>




lemma setImagePriority_fields [simp]:
  "mImagePriority (setImagePriority p w)
     = (if \<bar>p - mImagePriority w\<bar> > mImagePriority w * (5 / 100) \<or> mState w = DONE
        then p else mImagePriority w)"
  "mState (setImagePriority p w) = mState w"
  "mDesiredDiscard (setImagePriority p w) = mDesiredDiscard w"
  "mDesiredSize (setImagePriority p w) = mDesiredSize w"
  "haveWork (setImagePriority p w) = haveWork w"
  "addr (setImagePriority p w) = addr w" "mID (setImagePriority p w) = mID w"
  "mHost (setImagePriority p w) = mHost w"
  "mRequestedDiscard (setImagePriority p w) = mRequestedDiscard w"
  "mRequestedSize (setImagePriority p w) = mRequestedSize w"
  "mRequestedOffset (setImagePriority p w) = mRequestedOffset w"
  "mNeedsAux (setImagePriority p w) = mNeedsAux w"
  "mCanUseHTTP (setImagePriority p w) = mCanUseHTTP w"
  "mActiveCount (setImagePriority p w) = mActiveCount w"
  by (simp_all add: setImagePriority_def Let_def)

lemma setDesiredDiscard_fields [simp]:
  "mDesiredDiscard (setDesiredDiscard f d s w) = d"
  "mDesiredSize (setDesiredDiscard f d s w)
     = (if mDesiredDiscard w \<noteq> d then max s 4096 else max (max s (mDesiredSize w)) 4096)"
  "mImagePriority (setDesiredDiscard f d s w) = mImagePriority w"
  "addr (setDesiredDiscard f d s w) = addr w" "mID (setDesiredDiscard f d s w) = mID w"
  "mHost (setDesiredDiscard f d s w) = mHost w"
  "mRequestedDiscard (setDesiredDiscard f d s w) = mRequestedDiscard w"
  "mRequestedSize (setDesiredDiscard f d s w) = mRequestedSize w"
  "mRequestedOffset (setDesiredDiscard f d s w) = mRequestedOffset w"
  "mNeedsAux (setDesiredDiscard f d s w) = mNeedsAux w"
  "mCanUseHTTP (setDesiredDiscard f d s w) = mCanUseHTTP w"
  "mActiveCount (setDesiredDiscard f d s w) = mActiveCount w"
  by (auto simp: setDesiredDiscard_def Let_def setState_def addWork_def)





lemma removeFromNetworkQueue_map [simp]:
  "mRequestMap (removeFromNetworkQueue w c f) = mRequestMap f"
  by (simp add: removeFromNetworkQueue_def Let_def)




lemma s32_small: "- (2 ^ 31) \<le> x \<Longrightarrow> x < 2 ^ 31 \<Longrightarrow> s32 x = x"
  unfolding s32_def by (simp add: signed_take_bit_int_eq_self_iff sint_sbintrunc')


text \<open>
  The product of the dimensions wraps: for an image of 65536 by 65536 with one component
  it is 0, and \<^verbatim>\<open>createRequest\<close> asks for the size of an image of unknown dimensions.
\<close>

lemma desired_request_wraps:
  "s32 (65536 * 65536 * 1) = 0
   \<and> desired_request example_env FTT_DEFAULT [] 65536 65536 1 3 = (4194304, 3)"
proof -
  have z: "s32 (65536 * 65536 * 1) = 0"
    by (simp add: s32_def)
  have d: "s32 (4194304 :: int) = 4194304" by (rule s32_small) simp_all
  from z d show ?thesis
    by (simp add: desired_request_def example_env_def)
qed



end
